theory Spec2Isabelle
  imports Main
begin

section \<open>Rows, Python values and errors\<close>

text \<open>
  A row of the bepress CSV, as \<open>csv.DictReader\<close> yields it: a dictionary from column
  names to strings. \<open>row.get(k)\<close> is \<open>row k\<close> (\<open>None\<close> for a missing column),
  \<open>row[k]\<close> raises \<open>KeyError\<close> for a missing column.
\<close>

type_synonym row = "string \<rightharpoonup> string"

text \<open>
  A path is the tuple \<open>parts\<close> of a \<open>pathlib\<close> path: the root first when the path is
  absolute, then the names. The exceptions of the program are the \<open>KeyError\<close> of a missing
  key and the \<open>OSError\<close> (\<open>FileExistsError\<close>, \<open>NotADirectoryError\<close>,
  \<open>IsADirectoryError\<close>, \<open>PermissionError\<close>, ...) of a filesystem call on a path.
\<close>

type_synonym path = "string list"

datatype error = KeyError string | OSError path

definition getitem :: "row \<Rightarrow> string \<Rightarrow> error + string" where
  "getitem row k = (case row k of None \<Rightarrow> Inl (KeyError k) | Some v \<Rightarrow> Inr v)"

text \<open>Python truth value of \<open>row.get(k)\<close>: \<open>None\<close> and the empty string are false.\<close>

definition truthy :: "string option \<Rightarrow> bool" where
  "truthy v = (case v of None \<Rightarrow> False | Some s \<Rightarrow> s \<noteq> [])"

section \<open>Formatting a column template with an author index\<close>

definition digit :: "nat \<Rightarrow> char" where
  "digit n = ''0123456789'' ! (n mod 10)"

fun decimal :: "nat \<Rightarrow> string" where
  "decimal n = (if n < 10 then [digit n] else decimal (n div 10) @ [digit n])"

declare decimal.simps [simp del]

text \<open>\<open>src % author_index\<close> for a template with one \<open>%d\<close> and an integer argument.\<close>

fun percent :: "string \<Rightarrow> nat \<Rightarrow> string" where
  "percent [] n = []"
| "percent (c # rest) n =
     (if c = CHR ''%'' \<and> take 1 rest = ''d'' then decimal n @ drop 1 rest
      else c # percent rest n)"

section \<open>Author extraction\<close>

text \<open>
  \<open>AUTHOR_FIELDS_MAP\<close> is a Python set of pairs, so the order in which the inner loop
  visits the pairs is not fixed by the source. The destination keys are pairwise different,
  so every order builds the same dictionary; the list below fixes the order of the source
  text.
\<close>

type_synonym author = "string \<rightharpoonup> string"

definition AUTHOR_FIELDS_MAP :: "(string \<times> string) list" where
  "AUTHOR_FIELDS_MAP =
    [(''author%d_fname'', ''first_name''),
     (''author%d_mname'', ''middle_name''),
     (''author%d_lname'', ''last_name''),
     (''author%d_suffix'', ''salutation''),
     (''author%d_email'', ''email''),
     (''author%d_institution'', ''institution''),
     (''author%d_is_corporate'', ''is_corporate'')]"

text \<open>One pass of the inner loop body (lines 102-103).\<close>

definition author_field :: "row \<Rightarrow> nat \<Rightarrow> string \<times> string \<Rightarrow> author \<Rightarrow> author" where
  "author_field row author_index sd author =
     (case sd of (src, dest) \<Rightarrow>
        (if truthy (row (percent src author_index))
         then (case getitem row (percent src author_index) of
                 Inr v \<Rightarrow> author(dest \<mapsto> v)
               | Inl e \<Rightarrow> author)
         else author))"

text \<open>The inner loop (lines 100-103): the candidate record of one author index.\<close>

definition author_candidate :: "row \<Rightarrow> nat \<Rightarrow> author" where
  "author_candidate row author_index =
     fold (author_field row author_index) AUTHOR_FIELDS_MAP Map.empty"

text \<open>
  The outer loop (lines 99-109) over the remaining indices, with the list \<open>authors\<close>
  built so far; the \<open>else\<close> branch is the \<open>break\<close>.
\<close>

fun authors_loop :: "row \<Rightarrow> nat list \<Rightarrow> author list \<Rightarrow> author list" where
  "authors_loop row [] authors = authors"
| "authors_loop row (author_index # rest) authors =
     (let author = author_candidate row author_index in
      if author \<noteq> Map.empty then authors_loop row rest (authors @ [author])
      else authors)"

definition parse_authors :: "row \<Rightarrow> author list" where
  "parse_authors row = authors_loop row [1..<6] []"

section \<open>The world outside the program\<close>

text \<open>
  The effects of the program are kept in an explicit state: the log records, the URLs
  requested with \<open>requests.get\<close> (oldest first), the filesystem and the values printed
  to standard output. The filesystem maps a location to a regular file with its text or to a
  directory; \<open>w_denied\<close> holds the locations at which the operating system refuses to
  create a directory or to open a file for writing (permissions, a read-only or full disk).
  Symbolic links are not modelled.
\<close>

datatype level = INFO | WARNING | DEBUG

datatype arg = StrArg string | PathArg path

datatype node = File string | Dir

record world =
  w_log :: "(level \<times> string \<times> arg list) list"
  w_fetched :: "string list"
  w_fs :: "path \<rightharpoonup> node"
  w_denied :: "path set"
  w_stdout :: "string list"

definition logger :: "level \<Rightarrow> string \<Rightarrow> arg list \<Rightarrow> world \<Rightarrow> world" where
  "logger lvl msg args w = w\<lparr>w_log := w_log w @ [(lvl, msg, args)]\<rparr>"

text \<open>
  The collaborators the source imports: \<open>requests.get\<close> either raises a
  \<open>RequestException\<close> or returns a response with \<open>ok\<close> and \<open>text\<close> (its answer may
  depend on the requests made before); \<open>BeautifulSoup(text, "html.parser").find("a", id="pdf")\<close>
  gives the attribute dictionary of the first such anchor, or \<open>None\<close>; \<open>render_to_string\<close>
  renders a template with a context; \<open>BEPRESS_PATH\<close> comes from the plugin settings.
\<close>

record response =
  resp_ok :: bool
  resp_text :: string

datatype fetch_result = Raised string | Returned response

datatype pyval =
    PyStr string
  | PyNone
  | PyBool bool
  | PyStrList "string list"
  | PyAuthors "author list"

type_synonym article = "string \<rightharpoonup> pyval"

record env =
  requests_get :: "string list \<Rightarrow> string \<Rightarrow> fetch_result"
  find_pdf_anchor :: "string \<Rightarrow> (string \<rightharpoonup> string) option"
  render_to_string :: "string \<Rightarrow> (string \<rightharpoonup> article) \<Rightarrow> string"
  BEPRESS_PATH :: string

section \<open>Full-text URL resolution\<close>

text \<open>Lines 138-142: the \<open>unstamped=1\<close> query flag.\<close>

definition stamp :: "string option \<Rightarrow> bool \<Rightarrow> string option" where
  "stamp url unstamped =
     (case url of
        None \<Rightarrow> None
      | Some u \<Rightarrow>
          (if u \<noteq> [] \<and> unstamped
           then (if CHR ''?'' \<in> set u then Some (u @ ''&unstamped=1'')
                 else Some (u @ ''?unstamped=1''))
           else Some u))"

text \<open>
  Lines 123-136: the body of the \<open>if\<close> on line 122, entered with the value \<open>url\<close> of
  line 121. \<open>anchor_tag.attrs["href"]\<close> raises \<open>KeyError\<close> when the anchor has no
  \<open>href\<close> attribute.
\<close>

definition scrape_article :: "env \<Rightarrow> row \<Rightarrow> string option \<Rightarrow> world \<Rightarrow> (error + string option) \<times> world" where
  "scrape_article env row url w =
     (case getitem row ''calc_url'' of
        Inl e \<Rightarrow> (Inl e, w)
      | Inr calc_url \<Rightarrow>
          (let w1 = logger INFO ''Fetching article from %s'' [StrArg calc_url] w;
               w2 = w1\<lparr>w_fetched := w_fetched w1 @ [calc_url]\<rparr>
           in case requests_get env (w_fetched w1) calc_url of
                Raised exc \<Rightarrow>
                  (Inr url, logger WARNING ''Failed to extract PDF URL: %s'' [StrArg exc] w2)
              | Returned response \<Rightarrow>
                  (if resp_ok response
                   then (case find_pdf_anchor env (resp_text response) of
                           Some attrs \<Rightarrow>
                             (case getitem attrs ''href'' of
                                Inl e \<Rightarrow> (Inl e, w2)
                              | Inr href \<Rightarrow>
                                  (Inr (Some href),
                                   logger DEBUG ''Extracted fulltext url %s'' [StrArg href] w2))
                         | None \<Rightarrow> (Inr url, logger WARNING ''No fulltext url found'' [] w2))
                   else (Inr url, w2))))"

definition get_fulltext_url :: "env \<Rightarrow> row \<Rightarrow> bool \<Rightarrow> bool \<Rightarrow> world \<Rightarrow> (error + string option) \<times> world" where
  "get_fulltext_url env row unstamped scrape w =
     (let url = row ''fulltext_url'' in
      case (if \<not> truthy url \<and> scrape \<and> truthy (row ''calc_url'')
            then scrape_article env row url w
            else (Inr url, w)) of
        (Inl e, w') \<Rightarrow> (Inl e, w')
      | (Inr url', w') \<Rightarrow> (Inr (stamp url' unstamped), w'))"

text \<open>The input on which line 133 raises: the fetch of the secondary URL returns an OK response
  whose page has the anchor, and the anchor has no \<open>href\<close> attribute.\<close>

definition anchor_lacks_href :: "env \<Rightarrow> row \<Rightarrow> world \<Rightarrow> bool" where
  "anchor_lacks_href env row w =
     (case row ''calc_url'' of
        None \<Rightarrow> False
      | Some c \<Rightarrow>
          (case requests_get env (w_fetched w) c of
             Raised exc \<Rightarrow> False
           | Returned resp \<Rightarrow>
               resp_ok resp \<and>
               (case find_pdf_anchor env (resp_text resp) of
                  None \<Rightarrow> False
                | Some attrs \<Rightarrow> attrs ''href'' = None)))"

section \<open>Mapping a row to an article record\<close>

text \<open>\<open>s.split(sep)\<close> for a separator of one character.\<close>

fun str_split :: "char \<Rightarrow> string \<Rightarrow> string list" where
  "str_split sep [] = [[]]"
| "str_split sep (c # cs) =
     (if c = sep then [] # str_split sep cs
      else (case str_split sep cs of
              [] \<Rightarrow> [[c]]
            | piece # pieces \<Rightarrow> (c # piece) # pieces))"


definition py_of_url :: "string option \<Rightarrow> pyval" where
  "py_of_url url = (case url of None \<Rightarrow> PyNone | Some u \<Rightarrow> PyStr u)"

text \<open>
  Lines 80-87. The keyword arguments of \<open>dict(row, ...)\<close> are evaluated from left to
  right and replace the row's entries of the same name; \<open>get_fulltext_url\<close> is called
  with its defaults.
\<close>

definition parse_article_metadata :: "env \<Rightarrow> row \<Rightarrow> world \<Rightarrow> (error + article) \<times> world" where
  "parse_article_metadata env row w =
     (case getitem row ''disciplines'' of
        Inl e \<Rightarrow> (Inl e, w)
      | Inr disciplines \<Rightarrow>
          (case get_fulltext_url env row True True w of
             (Inl e, w') \<Rightarrow> (Inl e, w')
           | (Inr fulltext_url, w') \<Rightarrow>
               (case getitem row ''context_key'' of
                  Inl e \<Rightarrow> (Inl e, w')
                | Inr context_key \<Rightarrow>
                    (Inr ((map_option PyStr \<circ> row)
                           (''keywords'' \<mapsto> PyStrList (str_split CHR '';'' disciplines),
                            ''fulltext_url'' \<mapsto> py_of_url fulltext_url,
                            ''article_id'' \<mapsto> PyStr context_key,
                            ''language'' \<mapsto>
                               (case row ''language'' of None \<Rightarrow> PyStr ''en'' | Some v \<Rightarrow> PyStr v),
                            ''peer_reviewed'' \<mapsto>
                               (case row ''peer_reviewed'' of None \<Rightarrow> PyBool False | Some v \<Rightarrow> PyStr v))),
                     w'))))"

definition parse_row :: "env \<Rightarrow> row \<Rightarrow> world \<Rightarrow> (error + article) \<times> world" where
  "parse_row env row w =
     (case parse_article_metadata env row w of
        (Inl e, w') \<Rightarrow> (Inl e, w')
      | (Inr article_dict, w') \<Rightarrow>
          (Inr (article_dict(''authors'' \<mapsto> PyAuthors (parse_authors row))), w'))"

section \<open>Batch conversion\<close>


text \<open>
  \<open>pathlib.Path(*args)\<close> on a POSIX system. An empty argument is skipped; an argument
  that starts with a slash discards what was parsed before it and gives the root (two
  slashes exactly give the root \<open>//\<close>); an argument is split at the slashes and its empty
  and \<open>.\<close> pieces are dropped.
\<close>

definition is_root :: "string \<Rightarrow> bool" where
  "is_root s = (s = ''/'' \<or> s = ''//'')"

definition splitroot :: "string \<Rightarrow> string \<times> string" where
  "splitroot part =
     (if take 1 part = ''/''
      then (let stripped = dropWhile (\<lambda>c. c = CHR ''/'') part in
            if length part - length stripped = 2 then (''//'', stripped) else (''/'', stripped))
      else ([], part))"

definition segments :: "string \<Rightarrow> string list" where
  "segments rel = filter (\<lambda>x. x \<noteq> [] \<and> x \<noteq> ''.'') (str_split CHR ''/'' rel)"

definition join_part :: "path \<Rightarrow> string \<Rightarrow> path" where
  "join_part parsed part =
     (if part = [] then parsed
      else (case splitroot part of
              (root, rel) \<Rightarrow>
                if root \<noteq> [] then root # segments rel else parsed @ segments rel))"

definition Path :: "string list \<Rightarrow> path" where
  "Path args = foldl join_part [] args"


text \<open>
  The location a path names: the operating system resolves \<open>..\<close> to the directory above
  (the root is above itself; above the working directory the \<open>..\<close> stay). The working
  directory, the directories above it and the root are anchored: they exist as directories.
\<close>

definition enter :: "path \<Rightarrow> string \<Rightarrow> path" where
  "enter loc part =
     (if part = ''..''
      then (if loc = [] \<or> last loc = ''..'' then loc @ [''..'']
            else if is_root (last loc) then loc
            else butlast loc)
      else loc @ [part])"

definition locate :: "path \<Rightarrow> path" where
  "locate p = foldl enter [] p"

definition anchored :: "path \<Rightarrow> bool" where
  "anchored loc = (filter (\<lambda>s. s \<noteq> ''..'' \<and> \<not> is_root s) loc = [])"

definition is_dir :: "world \<Rightarrow> path \<Rightarrow> bool" where
  "is_dir w loc = (anchored loc \<or> w_fs w loc = Some Dir)"





text \<open>A name that \<open>pathlib\<close> keeps as one part of the path.\<close>

definition plain :: "string \<Rightarrow> bool" where
  "plain s = (s \<noteq> [] \<and> s \<noteq> ''.'' \<and> CHR ''/'' \<notin> set s)"





section \<open>Example inputs\<close>

definition world0 :: world where
  "world0 = \<lparr>w_log = [], w_fetched = [], w_fs = Map.empty, w_denied = {}, w_stdout = []\<rparr>"

definition example_get :: "string list \<Rightarrow> string \<Rightarrow> fetch_result" where
  "example_get history url =
     (if url = ''http://x/a'' then Returned \<lparr>resp_ok = True, resp_text = ''page with pdf anchor''\<rparr>
      else if url = ''http://x/e'' then Returned \<lparr>resp_ok = True, resp_text = ''page with empty href''\<rparr>
      else if url = ''http://x/h'' then Returned \<lparr>resp_ok = True, resp_text = ''page with anchor without href''\<rparr>
      else if url = ''http://x/n'' then Returned \<lparr>resp_ok = True, resp_text = ''page without anchor''\<rparr>
      else if url = ''http://x/404'' then Returned \<lparr>resp_ok = False, resp_text = ''not found''\<rparr>
      else Raised ''connection refused'')"

definition example_find :: "string \<Rightarrow> (string \<rightharpoonup> string) option" where
  "example_find html =
     (if html = ''page with pdf anchor'' then Some [''id'' \<mapsto> ''pdf'', ''href'' \<mapsto> ''http://x/y.pdf'']
      else if html = ''page with empty href'' then Some [''id'' \<mapsto> ''pdf'', ''href'' \<mapsto> []]
      else if html = ''page with anchor without href'' then Some [''id'' \<mapsto> ''pdf'']
      else None)"

definition example_render :: "string \<Rightarrow> (string \<rightharpoonup> article) \<Rightarrow> string" where
  "example_render template context =
     (case context ''article'' of
        None \<Rightarrow> template
      | Some a \<Rightarrow> (case a ''article_id'' of Some (PyStr i) \<Rightarrow> ''<id>'' @ i @ ''</id>'' | _ \<Rightarrow> template))"

definition example_env :: env where
  "example_env = \<lparr>requests_get = example_get, find_pdf_anchor = example_find,
                   render_to_string = example_render, BEPRESS_PATH = ''/files/bepress''\<rparr>"

section \<open>Author extraction: the scan over the indices\<close>

lemma fold_author_field:
  "distinct (map snd fs) \<Longrightarrow>
   fold (author_field row i) fs a dest =
     (case map_of (map (\<lambda>(src, d). (d, src)) fs) dest of
        None \<Rightarrow> a dest
      | Some src \<Rightarrow> (if truthy (row (percent src i)) then row (percent src i) else a dest))"
proof (induction fs arbitrary: a)
  case Nil
  then show ?case by simp
next
  case (Cons sd fs)
  obtain src d where sd: "sd = (src, d)" by (cases sd)
  from Cons.prems sd have notin: "d \<notin> snd ` set fs" and dist: "distinct (map snd fs)"
    by auto
  have none: "dest = d \<Longrightarrow> map_of (map (\<lambda>(src, d). (d, src)) fs) dest = None"
    using notin by (force simp: map_of_eq_None_iff)
  show ?case
    using Cons.IH [OF dist] none
    by (auto simp: sd author_field_def getitem_def truthy_def split: option.splits)
qed

lemma author_candidate_lookup:
  "author_candidate row i dest =
     (case map_of (map (\<lambda>(src, d). (d, src)) AUTHOR_FIELDS_MAP) dest of
        None \<Rightarrow> None
      | Some src \<Rightarrow> (if truthy (row (percent src i)) then row (percent src i) else None))"
  unfolding author_candidate_def
  by (subst fold_author_field) (simp_all add: AUTHOR_FIELDS_MAP_def)

text \<open>Every order of visiting the pairs of \<open>AUTHOR_FIELDS_MAP\<close> builds the same candidate.\<close>

lemma author_candidate_any_order:
  assumes "set fs = set AUTHOR_FIELDS_MAP" and "distinct fs"
  shows "fold (author_field row i) fs Map.empty = author_candidate row i"
proof -
  let ?swap = "\<lambda>(src, d). (d, src)"
  have inj: "inj_on snd (set AUTHOR_FIELDS_MAP)"
    by (simp add: AUTHOR_FIELDS_MAP_def)
  have dist: "distinct (map snd fs)"
    using assms inj by (simp add: distinct_map)
  have dist': "distinct (map snd AUTHOR_FIELDS_MAP)"
    by (simp add: AUTHOR_FIELDS_MAP_def)
  have fst_swap: "map fst (map ?swap xs) = map snd xs" for xs :: "(string \<times> string) list"
    by (induction xs) auto
  have "set (map ?swap fs) = set (map ?swap AUTHOR_FIELDS_MAP)"
    using assms(1) by simp
  then have same: "map_of (map ?swap fs) = map_of (map ?swap AUTHOR_FIELDS_MAP)"
    using dist dist' by (simp only: map_of_inject_set fst_swap)
  show ?thesis
  proof
    fix dest
    show "fold (author_field row i) fs Map.empty dest = author_candidate row i dest"
      by (simp only: fold_author_field [OF dist] author_candidate_lookup same)
  qed
qed

lemma authors_loop_takeWhile:
  "authors_loop row is authors =
     authors @ map (author_candidate row) (takeWhile (\<lambda>i. author_candidate row i \<noteq> Map.empty) is)"
  by (induction "is" arbitrary: authors) (simp_all add: Let_def)

lemma parse_authors_takeWhile:
  "parse_authors row =
     map (author_candidate row) (takeWhile (\<lambda>i. author_candidate row i \<noteq> Map.empty) [1, 2, 3, 4, 5])"
proof -
  have "[1..<6] = [1, 2, 3, 4, 5::nat]" by (simp add: upt_rec)
  then show ?thesis by (simp add: parse_authors_def authors_loop_takeWhile)
qed

lemma author_candidate_dom:
  "dom (author_candidate row i) \<subseteq> {''first_name'', ''middle_name'', ''last_name'', ''salutation'', ''email'', ''institution'', ''is_corporate''}"
  by (auto simp: author_candidate_lookup AUTHOR_FIELDS_MAP_def split: option.splits if_splits)

lemma parse_authors_upt:
  "parse_authors row =
     map (author_candidate row) (takeWhile (\<lambda>i. author_candidate row i \<noteq> Map.empty) [1..<6])"
  by (simp only: parse_authors_def authors_loop_takeWhile append_Nil)

lemma scan_nonblank: "v \<notin> set (map c (takeWhile (\<lambda>i. c i \<noteq> v) xs))"
  by (auto dest: set_takeWhileD)

lemma scan_length: "length (map c (takeWhile P [a..<b])) \<le> b - a"
  using length_takeWhile_le [of P "[a..<b]"] by simp

lemma scan_nth:
  assumes "k < length (map c (takeWhile P [a..<b]))"
  shows "map c (takeWhile P [a..<b]) ! k = c (a + k)"
proof -
  from assms have k: "k < length (takeWhile P [a..<b])" by simp
  with length_takeWhile_le [of P "[a..<b]"] have "a + k < b" by simp
  then have "[a..<b] ! k = a + k" by simp
  with takeWhile_nth [OF k] k show ?thesis by simp
qed

lemma scan_stop:
  assumes "length (map c (takeWhile P [a..<b])) < b - a"
  shows "\<not> P (a + length (map c (takeWhile P [a..<b])))"
proof -
  let ?n = "length (takeWhile P [a..<b])"
  from assms have n: "?n < length [a..<b]" by simp
  then have "\<not> P ([a..<b] ! ?n)" by (rule nth_length_takeWhile)
  moreover from n have "[a..<b] ! ?n = a + ?n" by simp
  ultimately show ?thesis by simp
qed

lemma parse_authors_length: "length (parse_authors row) \<le> 5"
  using scan_length [of "author_candidate row" _ 1 6] by (simp only: parse_authors_upt) simp

lemma parse_authors_nonblank: "Map.empty \<notin> set (parse_authors row)"
  by (simp only: parse_authors_upt) (rule scan_nonblank)

lemma parse_authors_nth:
  "k < length (parse_authors row) \<Longrightarrow> parse_authors row ! k = author_candidate row (Suc k)"
  using scan_nth [of k "author_candidate row" _ 1 6] by (simp only: parse_authors_upt) simp

lemma parse_authors_stop:
  "length (parse_authors row) < 5 \<Longrightarrow>
   author_candidate row (Suc (length (parse_authors row))) = Map.empty"
  using scan_stop [of "author_candidate row" "\<lambda>i. author_candidate row i \<noteq> Map.empty" 1 6]
  by (simp only: parse_authors_upt) simp

lemma parse_authors_blank:
  assumes "j \<in> {1..5}" "author_candidate row j = Map.empty"
  shows "length (parse_authors row) < j"
proof (rule ccontr)
  assume "\<not> length (parse_authors row) < j"
  with assms(1) obtain k where k: "j = Suc k" "k < length (parse_authors row)"
    by (cases j) auto
  from parse_authors_nth [OF k(2)] assms(2) k(1) have "parse_authors row ! k = Map.empty"
    by simp
  moreover from k(2) have "parse_authors row ! k \<in> set (parse_authors row)"
    by (rule nth_mem)
  ultimately show False using parse_authors_nonblank [of row] by simp
qed

lemma decimal_digit: "n < 10 \<Longrightarrow> decimal n = [digit n]"
  by (simp add: decimal.simps)

lemma author_candidate_attrs:
  "dom (author_candidate row i) \<subseteq>
             {''first_name'', ''middle_name'', ''last_name'', ''salutation'', ''email'',
              ''institution'', ''is_corporate''}
          \<and> author_candidate row i ''first_name'' =
              (if truthy (row (''author'' @ decimal i @ ''_fname''))
               then row (''author'' @ decimal i @ ''_fname'') else None)
          \<and> author_candidate row i ''middle_name'' =
              (if truthy (row (''author'' @ decimal i @ ''_mname''))
               then row (''author'' @ decimal i @ ''_mname'') else None)
          \<and> author_candidate row i ''last_name'' =
              (if truthy (row (''author'' @ decimal i @ ''_lname''))
               then row (''author'' @ decimal i @ ''_lname'') else None)
          \<and> author_candidate row i ''salutation'' =
              (if truthy (row (''author'' @ decimal i @ ''_suffix''))
               then row (''author'' @ decimal i @ ''_suffix'') else None)
          \<and> author_candidate row i ''email'' =
              (if truthy (row (''author'' @ decimal i @ ''_email''))
               then row (''author'' @ decimal i @ ''_email'') else None)
          \<and> author_candidate row i ''institution'' =
              (if truthy (row (''author'' @ decimal i @ ''_institution''))
               then row (''author'' @ decimal i @ ''_institution'') else None)
          \<and> author_candidate row i ''is_corporate'' =
              (if truthy (row (''author'' @ decimal i @ ''_is_corporate''))
               then row (''author'' @ decimal i @ ''_is_corporate'') else None)"
  apply (intro conjI)
         apply (rule author_candidate_dom)
        apply (simp_all add: author_candidate_lookup AUTHOR_FIELDS_MAP_def)
  done

text \<open>
  C1. The author extraction probes the indices 1 to 5 in ascending order and returns the
  candidate records of the indices before the first blank one: the result has at most five
  records, none of them blank, its record at position \<open>k\<close> is the candidate of index
  \<open>k + 1\<close>, and a blank index \<open>j\<close> leaves fewer than \<open>j\<close> records whatever the later
  indices hold; the scan stops early only at a blank index. A candidate holds exactly the
  destination attributes (first name, middle name, last name, salutation, email,
  institution, corporate flag) whose source column is present and non-empty in the row,
  with the column's value.
\<close>

theorem parse_authors_scan:
  "parse_authors row =
     map (author_candidate row)
       (takeWhile (\<lambda>i. author_candidate row i \<noteq> Map.empty) [1, 2, 3, 4, 5])
   \<and> length (parse_authors row) \<le> 5
   \<and> Map.empty \<notin> set (parse_authors row)
   \<and> (\<forall>k < length (parse_authors row).
         parse_authors row ! k = author_candidate row (Suc k))
   \<and> (\<forall>j \<in> {1..5}. author_candidate row j = Map.empty \<longrightarrow> length (parse_authors row) < j)
   \<and> (length (parse_authors row) < 5 \<longrightarrow>
         author_candidate row (Suc (length (parse_authors row))) = Map.empty)
   \<and> (\<forall>i. dom (author_candidate row i) \<subseteq>
             {''first_name'', ''middle_name'', ''last_name'', ''salutation'', ''email'',
              ''institution'', ''is_corporate''}
          \<and> author_candidate row i ''first_name'' =
              (if truthy (row (''author'' @ decimal i @ ''_fname''))
               then row (''author'' @ decimal i @ ''_fname'') else None)
          \<and> author_candidate row i ''middle_name'' =
              (if truthy (row (''author'' @ decimal i @ ''_mname''))
               then row (''author'' @ decimal i @ ''_mname'') else None)
          \<and> author_candidate row i ''last_name'' =
              (if truthy (row (''author'' @ decimal i @ ''_lname''))
               then row (''author'' @ decimal i @ ''_lname'') else None)
          \<and> author_candidate row i ''salutation'' =
              (if truthy (row (''author'' @ decimal i @ ''_suffix''))
               then row (''author'' @ decimal i @ ''_suffix'') else None)
          \<and> author_candidate row i ''email'' =
              (if truthy (row (''author'' @ decimal i @ ''_email''))
               then row (''author'' @ decimal i @ ''_email'') else None)
          \<and> author_candidate row i ''institution'' =
              (if truthy (row (''author'' @ decimal i @ ''_institution''))
               then row (''author'' @ decimal i @ ''_institution'') else None)
          \<and> author_candidate row i ''is_corporate'' =
              (if truthy (row (''author'' @ decimal i @ ''_is_corporate''))
               then row (''author'' @ decimal i @ ''_is_corporate'') else None))"
  apply (intro conjI)
        apply (rule parse_authors_takeWhile)
       apply (rule parse_authors_length)
      apply (rule parse_authors_nonblank)
     apply (intro allI impI, erule parse_authors_nth)
    apply (intro ballI impI, erule (1) parse_authors_blank)
   apply (intro impI, erule parse_authors_stop)
  apply (intro allI, rule author_candidate_attrs)
  done

theorem parse_authors_scan_witness:
  "parse_authors
     [''author1_fname'' \<mapsto> ''Ann'', ''author1_email'' \<mapsto> [], ''author3_lname'' \<mapsto> ''Zed'']
     = [[''first_name'' \<mapsto> ''Ann'']]
   \<and> author_candidate
       [''author1_fname'' \<mapsto> ''Ann'', ''author1_email'' \<mapsto> [], ''author3_lname'' \<mapsto> ''Zed''] 2
     = Map.empty
   \<and> author_candidate
       [''author1_fname'' \<mapsto> ''Ann'', ''author1_email'' \<mapsto> [], ''author3_lname'' \<mapsto> ''Zed''] 3
     = [''last_name'' \<mapsto> ''Zed'']
   \<and> (2::nat) \<in> {1..5}
   \<and> length (parse_authors
       [''author1_fname'' \<mapsto> ''Ann'', ''author1_email'' \<mapsto> [], ''author3_lname'' \<mapsto> ''Zed''])
     < 2"
proof -
  let ?row = "[''author1_fname'' \<mapsto> ''Ann'', ''author1_email'' \<mapsto> [],
               ''author3_lname'' \<mapsto> ''Zed'']"
  note ev = author_candidate_def AUTHOR_FIELDS_MAP_def author_field_def truthy_def
    getitem_def decimal_digit digit_def
  have c1: "author_candidate ?row (Suc 0) = [''first_name'' \<mapsto> ''Ann'']"
    by (simp add: ev)
  have c2: "author_candidate ?row 2 = Map.empty"
    by (simp add: ev)
  have c3: "author_candidate ?row 3 = [''last_name'' \<mapsto> ''Zed'']"
    by (simp add: ev)
  have in5: "(2::nat) \<in> {1..5}"
    by simp
  note scan = parse_authors_scan [of ?row]
  from scan have eq: "parse_authors ?row =
     map (author_candidate ?row)
       (takeWhile (\<lambda>i. author_candidate ?row i \<noteq> Map.empty) [1, 2, 3, 4, 5])"
    by (rule conjunct1)
  have res: "parse_authors ?row = [[''first_name'' \<mapsto> ''Ann'']]"
    by (subst eq) (simp add: c1 c2)
  from scan have
    "\<forall>j \<in> {1..5}. author_candidate ?row j = Map.empty \<longrightarrow> length (parse_authors ?row) < j"
    by (rule conjunct1 [OF conjunct2 [OF conjunct2 [OF conjunct2 [OF conjunct2]]]])
  with in5 c2 have short: "length (parse_authors ?row) < 2"
    by blast
  from res c2 c3 in5 short show ?thesis
    by (intro conjI)
qed

section \<open>Full-text URL resolution: results\<close>

lemma stamp_simps:
  "stamp None unstamped = None"
  "stamp (Some []) unstamped = Some []"
  "stamp url False = url"
  "u \<noteq> [] \<Longrightarrow> stamp (Some u) True =
     Some (u @ (if CHR ''?'' \<in> set u then ''&unstamped=1'' else ''?unstamped=1''))"
  by (simp_all add: stamp_def split: option.splits)

lemma stamp_falsy: "\<not> truthy url \<Longrightarrow> stamp url unstamped = url"
  by (auto simp: stamp_def truthy_def split: option.splits)

lemma w_fetched_logger: "w_fetched (logger lvl msg args w) = w_fetched w"
  by (simp add: logger_def)

lemma get_fulltext_url_no_scrape:
  "truthy (row ''fulltext_url'') \<or> \<not> scrape \<or> \<not> truthy (row ''calc_url'') \<Longrightarrow>
   get_fulltext_url env row unstamped scrape w = (Inr (stamp (row ''fulltext_url'') unstamped), w)"
  by (auto simp: get_fulltext_url_def)

lemma get_fulltext_url_scrape:
  assumes "\<not> truthy (row ''fulltext_url'')" "scrape" "row ''calc_url'' = Some c" "c \<noteq> []"
  shows "get_fulltext_url env row unstamped scrape w =
     (case scrape_article env row (row ''fulltext_url'') w of
        (Inl e, w') \<Rightarrow> (Inl e, w')
      | (Inr url', w') \<Rightarrow> (Inr (stamp url' unstamped), w'))"
  using assms by (simp add: get_fulltext_url_def truthy_def)

lemma scrape_article_raised:
  assumes "row ''calc_url'' = Some c" "requests_get env (w_fetched w) c = Raised exc"
  shows "scrape_article env row url w =
     (Inr url,
      logger WARNING ''Failed to extract PDF URL: %s'' [StrArg exc]
        ((logger INFO ''Fetching article from %s'' [StrArg c] w)\<lparr>w_fetched := w_fetched w @ [c]\<rparr>))"
  using assms by (simp add: scrape_article_def getitem_def Let_def w_fetched_logger)

lemma scrape_article_not_ok:
  assumes "row ''calc_url'' = Some c" "requests_get env (w_fetched w) c = Returned resp"
    "\<not> resp_ok resp"
  shows "scrape_article env row url w =
     (Inr url, (logger INFO ''Fetching article from %s'' [StrArg c] w)\<lparr>w_fetched := w_fetched w @ [c]\<rparr>)"
  using assms by (simp add: scrape_article_def getitem_def Let_def w_fetched_logger)

lemma scrape_article_no_anchor:
  assumes "row ''calc_url'' = Some c" "requests_get env (w_fetched w) c = Returned resp"
    "resp_ok resp" "find_pdf_anchor env (resp_text resp) = None"
  shows "scrape_article env row url w =
     (Inr url,
      logger WARNING ''No fulltext url found'' []
        ((logger INFO ''Fetching article from %s'' [StrArg c] w)\<lparr>w_fetched := w_fetched w @ [c]\<rparr>))"
  using assms by (simp add: scrape_article_def getitem_def Let_def w_fetched_logger)

lemma scrape_article_href:
  assumes "row ''calc_url'' = Some c" "requests_get env (w_fetched w) c = Returned resp"
    "resp_ok resp" "find_pdf_anchor env (resp_text resp) = Some attrs" "attrs ''href'' = Some x"
  shows "scrape_article env row url w =
     (Inr (Some x),
      logger DEBUG ''Extracted fulltext url %s'' [StrArg x]
        ((logger INFO ''Fetching article from %s'' [StrArg c] w)\<lparr>w_fetched := w_fetched w @ [c]\<rparr>))"
  using assms by (simp add: scrape_article_def getitem_def Let_def w_fetched_logger)

lemma scrape_article_no_href:
  assumes "row ''calc_url'' = Some c" "requests_get env (w_fetched w) c = Returned resp"
    "resp_ok resp" "find_pdf_anchor env (resp_text resp) = Some attrs" "attrs ''href'' = None"
  shows "scrape_article env row url w =
     (Inl (KeyError ''href''),
      (logger INFO ''Fetching article from %s'' [StrArg c] w)\<lparr>w_fetched := w_fetched w @ [c]\<rparr>)"
  using assms by (simp add: scrape_article_def getitem_def Let_def w_fetched_logger)

lemma scrape_article_raises_iff:
  "(\<exists>e w'. scrape_article env row url w = (Inl e, w')) \<longleftrightarrow>
     row ''calc_url'' = None \<or> anchor_lacks_href env row w"
  by (auto simp: scrape_article_def anchor_lacks_href_def getitem_def Let_def w_fetched_logger
      split: option.splits fetch_result.splits)

lemma get_fulltext_url_raises_iff:
  "(\<exists>e w'. get_fulltext_url env row unstamped scrape w = (Inl e, w')) \<longleftrightarrow>
     \<not> truthy (row ''fulltext_url'') \<and> scrape \<and> truthy (row ''calc_url'') \<and>
     anchor_lacks_href env row w"
proof (cases "\<not> truthy (row ''fulltext_url'') \<and> scrape \<and> truthy (row ''calc_url'')")
  case False
  then show ?thesis by (auto simp: get_fulltext_url_def)
next
  case True
  then obtain c where c: "row ''calc_url'' = Some c"
    by (auto simp: truthy_def split: option.splits)
  have "(\<exists>e w'. get_fulltext_url env row unstamped scrape w = (Inl e, w')) \<longleftrightarrow>
        (\<exists>e w'. scrape_article env row (row ''fulltext_url'') w = (Inl e, w'))"
    using True by (auto simp: get_fulltext_url_def split: prod.splits sum.splits)
  with True c show ?thesis
    by (simp add: scrape_article_raises_iff)
qed


lemma get_fulltext_url_stamp:
  assumes "get_fulltext_url env row False scrape w = (Inr r, w')"
  shows "get_fulltext_url env row unstamped scrape w = (Inr (stamp r unstamped), w')"
proof -
  define pre where "pre =
    (if \<not> truthy (row ''fulltext_url'') \<and> scrape \<and> truthy (row ''calc_url'')
     then scrape_article env row (row ''fulltext_url'') w
     else (Inr (row ''fulltext_url''), w))"
  have unfold: "get_fulltext_url env row b scrape w =
      (case pre of (Inl e, w1) \<Rightarrow> (Inl e, w1) | (Inr url', w1) \<Rightarrow> (Inr (stamp url' b), w1))" for b
    by (simp only: get_fulltext_url_def Let_def pre_def)
  obtain res w1 where pre: "pre = (res, w1)" by (cases pre)
  from assms have "res = Inr r \<and> w1 = w'"
    by (cases res) (simp_all add: unfold pre stamp_simps)
  then show ?thesis by (simp add: unfold pre)
qed

text \<open>
  C2. For a row whose explicit full-text URL is present and non-empty,
  \<open>get_fulltext_url\<close> with its default arguments returns that URL followed by the
  stamping suffix, and leaves the world as it was: nothing is fetched (and nothing logged).
\<close>

theorem get_fulltext_url_explicit:
  assumes "row ''fulltext_url'' = Some u" and "u \<noteq> []"
  shows "get_fulltext_url env row True True w =
     (Inr (Some (u @ (if CHR ''?'' \<in> set u then ''&unstamped=1'' else ''?unstamped=1''))), w)"
  using assms by (simp add: get_fulltext_url_no_scrape truthy_def stamp_simps)

theorem get_fulltext_url_explicit_witness:
  "get_fulltext_url example_env
     [''fulltext_url'' \<mapsto> ''http://x/full.pdf'', ''calc_url'' \<mapsto> ''http://x/a''] True True world0 =
     (Inr (Some ''http://x/full.pdf?unstamped=1''), world0)"
  using get_fulltext_url_explicit
    [of "[''fulltext_url'' \<mapsto> ''http://x/full.pdf'', ''calc_url'' \<mapsto> ''http://x/a'']"
        "''http://x/full.pdf''" example_env world0]
  by simp

lemma get_fulltext_url_href:
  assumes "\<not> truthy (row ''fulltext_url'')"
    and "row ''calc_url'' = Some c" and "c \<noteq> []"
    and "requests_get env (w_fetched w) c = Returned resp" and "resp_ok resp"
    and "find_pdf_anchor env (resp_text resp) = Some attrs"
    and "attrs ''href'' = Some x"
  shows "get_fulltext_url env row unstamped True w =
     (Inr (stamp (Some x) unstamped),
      logger DEBUG ''Extracted fulltext url %s'' [StrArg x]
        ((logger INFO ''Fetching article from %s'' [StrArg c] w)\<lparr>w_fetched := w_fetched w @ [c]\<rparr>))"
  using assms
  by (simp add: get_fulltext_url_scrape [where c = c] scrape_article_href [where c = c])

lemma stamp_Some:
  "stamp (Some x) unstamped =
     Some (if x \<noteq> [] \<and> unstamped
           then x @ (if CHR ''?'' \<in> set x then ''&unstamped=1'' else ''?unstamped=1'')
           else x)"
  by (simp add: stamp_def)

text \<open>
  C3 (as amended). For a row without a non-empty explicit full-text URL and with a non-empty
  secondary URL, when scraping is allowed and the fetch of the secondary URL returns an OK
  response whose page has the anchor with \<open>href\<close> X, \<open>get_fulltext_url\<close> returns X
  followed by the stamping suffix when X is non-empty and the unstamped flag is true, and X
  itself otherwise: an empty \<open>href\<close> comes back as the empty string, without suffix. The
  secondary URL is fetched once, and the fetch and the extraction are logged.
\<close>

theorem get_fulltext_url_scraped:
  assumes "\<not> truthy (row ''fulltext_url'')"
    and "row ''calc_url'' = Some c" and "c \<noteq> []"
    and "requests_get env (w_fetched w) c = Returned resp" and "resp_ok resp"
    and "find_pdf_anchor env (resp_text resp) = Some attrs"
    and "attrs ''href'' = Some x"
  shows "get_fulltext_url env row unstamped True w =
     (Inr (Some (if x \<noteq> [] \<and> unstamped
                 then x @ (if CHR ''?'' \<in> set x then ''&unstamped=1'' else ''?unstamped=1'')
                 else x)),
      logger DEBUG ''Extracted fulltext url %s'' [StrArg x]
        ((logger INFO ''Fetching article from %s'' [StrArg c] w)\<lparr>w_fetched := w_fetched w @ [c]\<rparr>))"
  by (simp only: get_fulltext_url_href [OF assms] stamp_Some)

theorem get_fulltext_url_scraped_witness:
  "\<not> truthy ([''calc_url'' \<mapsto> ''http://x/a''] ''fulltext_url'')
   \<and> requests_get example_env (w_fetched world0) ''http://x/a'' =
       Returned \<lparr>resp_ok = True, resp_text = ''page with pdf anchor''\<rparr>
   \<and> find_pdf_anchor example_env ''page with pdf anchor'' =
       Some [''id'' \<mapsto> ''pdf'', ''href'' \<mapsto> ''http://x/y.pdf'']
   \<and> get_fulltext_url example_env [''calc_url'' \<mapsto> ''http://x/a''] True True world0 =
       (Inr (Some ''http://x/y.pdf?unstamped=1''),
        \<lparr>w_log = [(INFO, ''Fetching article from %s'', [StrArg ''http://x/a'']),
                  (DEBUG, ''Extracted fulltext url %s'', [StrArg ''http://x/y.pdf''])],
         w_fetched = [''http://x/a''], w_fs = Map.empty, w_denied = {}, w_stdout = []\<rparr>)
   \<and> \<not> truthy ([''calc_url'' \<mapsto> ''http://x/e''] ''fulltext_url'')
   \<and> requests_get example_env (w_fetched world0) ''http://x/e'' =
       Returned \<lparr>resp_ok = True, resp_text = ''page with empty href''\<rparr>
   \<and> find_pdf_anchor example_env ''page with empty href'' =
       Some [''id'' \<mapsto> ''pdf'', ''href'' \<mapsto> []]
   \<and> get_fulltext_url example_env [''calc_url'' \<mapsto> ''http://x/e''] True True world0 =
       (Inr (Some []),
        \<lparr>w_log = [(INFO, ''Fetching article from %s'', [StrArg ''http://x/e'']),
                  (DEBUG, ''Extracted fulltext url %s'', [StrArg []])],
         w_fetched = [''http://x/e''], w_fs = Map.empty, w_denied = {}, w_stdout = []\<rparr>)"
proof -
  let ?ra = "[''calc_url'' \<mapsto> ''http://x/a'']"
  let ?resp_a = "\<lparr>resp_ok = True, resp_text = ''page with pdf anchor''\<rparr>"
  let ?attrs_a = "[''id'' \<mapsto> ''pdf'', ''href'' \<mapsto> ''http://x/y.pdf'']"
  let ?re = "[''calc_url'' \<mapsto> ''http://x/e'']"
  let ?resp_e = "\<lparr>resp_ok = True, resp_text = ''page with empty href''\<rparr>"
  let ?attrs_e = "[''id'' \<mapsto> ''pdf'', ''href'' \<mapsto> []]"
  have a1: "\<not> truthy (?ra ''fulltext_url'')" by (simp add: truthy_def)
  have a2: "?ra ''calc_url'' = Some ''http://x/a''" by simp
  have a3: "''http://x/a'' \<noteq> []" by simp
  have a4: "requests_get example_env (w_fetched world0) ''http://x/a'' = Returned ?resp_a"
    by (simp add: example_env_def example_get_def)
  have a5: "resp_ok ?resp_a" by simp
  have a6: "find_pdf_anchor example_env (resp_text ?resp_a) = Some ?attrs_a"
    by (simp add: example_env_def example_find_def)
  have a7: "?attrs_a ''href'' = Some ''http://x/y.pdf''" by simp
  have e1: "\<not> truthy (?re ''fulltext_url'')" by (simp add: truthy_def)
  have e2: "?re ''calc_url'' = Some ''http://x/e''" by simp
  have e3: "''http://x/e'' \<noteq> []" by simp
  have e4: "requests_get example_env (w_fetched world0) ''http://x/e'' = Returned ?resp_e"
    by (simp add: example_env_def example_get_def)
  have e5: "resp_ok ?resp_e" by simp
  have e6: "find_pdf_anchor example_env (resp_text ?resp_e) = Some ?attrs_e"
    by (simp add: example_env_def example_find_def)
  have e7: "?attrs_e ''href'' = Some []" by simp
  have ra: "get_fulltext_url example_env ?ra True True world0 =
       (Inr (Some ''http://x/y.pdf?unstamped=1''),
        \<lparr>w_log = [(INFO, ''Fetching article from %s'', [StrArg ''http://x/a'']),
                  (DEBUG, ''Extracted fulltext url %s'', [StrArg ''http://x/y.pdf''])],
         w_fetched = [''http://x/a''], w_fs = Map.empty, w_denied = {}, w_stdout = []\<rparr>)"
    using get_fulltext_url_scraped
      [where row = ?ra and c = "''http://x/a''" and env = example_env and w = world0
         and resp = ?resp_a and attrs = ?attrs_a and x = "''http://x/y.pdf''"
         and unstamped = True,
       OF a1 a2 a3 a4 a5 a6 a7]
    by (simp add: world0_def logger_def)
  have re: "get_fulltext_url example_env ?re True True world0 =
       (Inr (Some []),
        \<lparr>w_log = [(INFO, ''Fetching article from %s'', [StrArg ''http://x/e'']),
                  (DEBUG, ''Extracted fulltext url %s'', [StrArg []])],
         w_fetched = [''http://x/e''], w_fs = Map.empty, w_denied = {}, w_stdout = []\<rparr>)"
    using get_fulltext_url_scraped
      [where row = ?re and c = "''http://x/e''" and env = example_env and w = world0
         and resp = ?resp_e and attrs = ?attrs_e and x = "[]" and unstamped = True,
       OF e1 e2 e3 e4 e5 e6 e7]
    by (simp add: world0_def logger_def)
  have a6': "find_pdf_anchor example_env ''page with pdf anchor'' = Some ?attrs_a"
    using a6 by simp
  have e6': "find_pdf_anchor example_env ''page with empty href'' = Some ?attrs_e"
    using e6 by simp
  from a1 a4 a6' ra e1 e4 e6' re show ?thesis
    by (intro conjI)
qed

text \<open>
  The claim as written fails where the anchor's \<open>href\<close> is the empty string: the function
  returns the empty string, not the empty string followed by the suffix.
\<close>

theorem get_fulltext_url_empty_href_counterexample:
  "\<not> truthy ([''calc_url'' \<mapsto> ''http://x/e''] ''fulltext_url'')
   \<and> requests_get example_env (w_fetched world0) ''http://x/e'' =
       Returned \<lparr>resp_ok = True, resp_text = ''page with empty href''\<rparr>
   \<and> find_pdf_anchor example_env ''page with empty href'' =
       Some [''id'' \<mapsto> ''pdf'', ''href'' \<mapsto> []]
   \<and> fst (get_fulltext_url example_env [''calc_url'' \<mapsto> ''http://x/e''] True True world0) =
       Inr (Some [])
   \<and> fst (get_fulltext_url example_env [''calc_url'' \<mapsto> ''http://x/e''] True True world0) \<noteq>
       Inr (Some ([] @ ''?unstamped=1''))"
  by (simp add: get_fulltext_url_def scrape_article_def truthy_def getitem_def stamp_def
      logger_def world0_def example_env_def example_get_def example_find_def)

text \<open>
  C4. With the unstamped flag true, every resolved (non-empty) URL gets \<open>unstamped=1\<close>
  appended, joined with \<open>&\<close> when the URL contains \<open>?\<close> and with \<open>?\<close> otherwise:
  this holds for the stamping step on every URL, for every explicit URL of a row, for every
  scraped \<open>href\<close>, and it relates every result of the function with the flag false to its
  result with the flag true. Nothing is appended when no URL was resolved: an absent or empty
  URL is returned as it is. The two URLs of the specification give the results it names.
\<close>

theorem stamping_suffix_rule:
  "(\<forall>u. u \<noteq> [] \<longrightarrow>
        stamp (Some u) True =
          Some (u @ (if CHR ''?'' \<in> set u then ''&unstamped=1'' else ''?unstamped=1'')))
   \<and> stamp None True = None
   \<and> stamp (Some []) True = Some []
   \<and> (\<forall>u. row ''fulltext_url'' = Some u \<and> u \<noteq> [] \<longrightarrow>
        get_fulltext_url env row True scrape w =
          (Inr (Some (u @ (if CHR ''?'' \<in> set u then ''&unstamped=1'' else ''?unstamped=1''))),
           w))
   \<and> (\<forall>c resp attrs x.
        \<not> truthy (row ''fulltext_url'') \<and> row ''calc_url'' = Some c \<and> c \<noteq> [] \<and>
        requests_get env (w_fetched w) c = Returned resp \<and> resp_ok resp \<and>
        find_pdf_anchor env (resp_text resp) = Some attrs \<and> attrs ''href'' = Some x \<and>
        x \<noteq> [] \<longrightarrow>
        fst (get_fulltext_url env row True True w) =
          Inr (Some (x @ (if CHR ''?'' \<in> set x then ''&unstamped=1'' else ''?unstamped=1''))))
   \<and> (\<not> truthy (row ''fulltext_url'') \<and> (\<not> scrape \<or> \<not> truthy (row ''calc_url'')) \<longrightarrow>
        get_fulltext_url env row True scrape w = (Inr (row ''fulltext_url''), w))
   \<and> (\<forall>r w'. get_fulltext_url env row False scrape w = (Inr r, w') \<longrightarrow>
        get_fulltext_url env row True scrape w = (Inr (stamp r True), w'))
   \<and> stamp (Some ''http://x/y?foo=1'') True = Some ''http://x/y?foo=1&unstamped=1''
   \<and> stamp (Some ''http://x/y'') True = Some ''http://x/y?unstamped=1''
   \<and> get_fulltext_url env [''fulltext_url'' \<mapsto> ''http://x/y?foo=1''] True scrape w =
        (Inr (Some ''http://x/y?foo=1&unstamped=1''), w)
   \<and> get_fulltext_url env [''fulltext_url'' \<mapsto> ''http://x/y''] True scrape w =
        (Inr (Some ''http://x/y?unstamped=1''), w)"
proof -
  have rule: "stamp (Some u) True =
          Some (u @ (if CHR ''?'' \<in> set u then ''&unstamped=1'' else ''?unstamped=1''))"
    if "u \<noteq> []" for u
    using that by (rule stamp_simps(4))
  have explicit: "get_fulltext_url env row True scrape w =
          (Inr (Some (u @ (if CHR ''?'' \<in> set u then ''&unstamped=1'' else ''?unstamped=1''))),
           w)"
    if "row ''fulltext_url'' = Some u \<and> u \<noteq> []" for u
    using that by (simp add: get_fulltext_url_no_scrape truthy_def stamp_simps)
  have scraped: "fst (get_fulltext_url env row True True w) =
          Inr (Some (x @ (if CHR ''?'' \<in> set x then ''&unstamped=1'' else ''?unstamped=1'')))"
    if h: "\<not> truthy (row ''fulltext_url'') \<and> row ''calc_url'' = Some c \<and> c \<noteq> [] \<and>
        requests_get env (w_fetched w) c = Returned resp \<and> resp_ok resp \<and>
        find_pdf_anchor env (resp_text resp) = Some attrs \<and> attrs ''href'' = Some x \<and>
        x \<noteq> []" for c resp attrs x
  proof -
    from h have "get_fulltext_url env row True True w =
     (Inr (stamp (Some x) True),
      logger DEBUG ''Extracted fulltext url %s'' [StrArg x]
        ((logger INFO ''Fetching article from %s'' [StrArg c] w)\<lparr>w_fetched := w_fetched w @ [c]\<rparr>))"
      by (intro get_fulltext_url_href [where resp = resp and attrs = attrs]) simp_all
    with h show ?thesis by (simp add: stamp_simps)
  qed
  have unresolved: "get_fulltext_url env row True scrape w = (Inr (row ''fulltext_url''), w)"
    if "\<not> truthy (row ''fulltext_url'') \<and> (\<not> scrape \<or> \<not> truthy (row ''calc_url''))"
    using that by (auto simp: get_fulltext_url_no_scrape stamp_falsy)
  have flag: "get_fulltext_url env row True scrape w = (Inr (stamp r True), w')"
    if "get_fulltext_url env row False scrape w = (Inr r, w')" for r w'
    using that by (rule get_fulltext_url_stamp)
  have ex1: "stamp (Some ''http://x/y?foo=1'') True = Some ''http://x/y?foo=1&unstamped=1''"
    by (simp add: stamp_def)
  have ex2: "stamp (Some ''http://x/y'') True = Some ''http://x/y?unstamped=1''"
    by (simp add: stamp_def)
  have ex3: "get_fulltext_url env [''fulltext_url'' \<mapsto> ''http://x/y?foo=1''] True scrape w =
        (Inr (Some ''http://x/y?foo=1&unstamped=1''), w)"
    by (simp add: get_fulltext_url_no_scrape truthy_def ex1)
  have ex4: "get_fulltext_url env [''fulltext_url'' \<mapsto> ''http://x/y''] True scrape w =
        (Inr (Some ''http://x/y?unstamped=1''), w)"
    by (simp add: get_fulltext_url_no_scrape truthy_def ex2)
  show ?thesis
    apply (intro conjI allI impI)
              apply (erule rule)
             apply (rule stamp_simps(1))
            apply (rule stamp_simps(2))
           apply (erule explicit)
          apply (erule scraped)
         apply (erule unresolved)
        apply (erule flag)
       apply (rule ex1)
      apply (rule ex2)
     apply (rule ex3)
    apply (rule ex4)
    done
qed

theorem stamping_suffix_rule_witness:
  "stamp (Some ''http://z/q'') True = Some ''http://z/q?unstamped=1''
   \<and> get_fulltext_url example_env [''fulltext_url'' \<mapsto> ''http://z/q?a=1''] True True world0 =
       (Inr (Some ''http://z/q?a=1&unstamped=1''), world0)
   \<and> fst (get_fulltext_url example_env [''calc_url'' \<mapsto> ''http://x/a''] True True world0) =
       Inr (Some ''http://x/y.pdf?unstamped=1'')
   \<and> get_fulltext_url example_env [''fulltext_url'' \<mapsto> []] True True world0 =
       (Inr (Some []), world0)
   \<and> get_fulltext_url example_env [''calc_url'' \<mapsto> ''http://x/a''] False False world0 =
       (Inr None, world0)
   \<and> get_fulltext_url example_env [''calc_url'' \<mapsto> ''http://x/a''] True False world0 =
       (Inr None, world0)"
proof -
  let ?rq = "[''fulltext_url'' \<mapsto> ''http://z/q?a=1'']"
  let ?ra = "[''calc_url'' \<mapsto> ''http://x/a'']"
  let ?re = "[''fulltext_url'' \<mapsto> []]"
  let ?resp = "\<lparr>resp_ok = True, resp_text = ''page with pdf anchor''\<rparr>"
  let ?attrs = "[''id'' \<mapsto> ''pdf'', ''href'' \<mapsto> ''http://x/y.pdf'']"
  \<comment> \<open>the stamping step at a URL without a query string\<close>
  from stamping_suffix_rule [of ?rq example_env True world0]
  have "\<forall>u. u \<noteq> [] \<longrightarrow>
        stamp (Some u) True =
          Some (u @ (if CHR ''?'' \<in> set u then ''&unstamped=1'' else ''?unstamped=1''))"
    by (rule conjunct1)
  then have "''http://z/q'' \<noteq> [] \<longrightarrow>
        stamp (Some ''http://z/q'') True =
          Some (''http://z/q'' @
                (if CHR ''?'' \<in> set ''http://z/q'' then ''&unstamped=1'' else ''?unstamped=1''))"
    by (rule spec)
  then have w1: "stamp (Some ''http://z/q'') True = Some ''http://z/q?unstamped=1''"
    by simp
  \<comment> \<open>an explicit URL with a query string\<close>
  from stamping_suffix_rule [of ?rq example_env True world0]
  have "\<forall>u. ?rq ''fulltext_url'' = Some u \<and> u \<noteq> [] \<longrightarrow>
        get_fulltext_url example_env ?rq True True world0 =
          (Inr (Some (u @ (if CHR ''?'' \<in> set u then ''&unstamped=1'' else ''?unstamped=1''))),
           world0)"
    by (rule conjunct1 [OF conjunct2 [OF conjunct2 [OF conjunct2]]])
  then have "?rq ''fulltext_url'' = Some ''http://z/q?a=1'' \<and> ''http://z/q?a=1'' \<noteq> [] \<longrightarrow>
        get_fulltext_url example_env ?rq True True world0 =
          (Inr (Some (''http://z/q?a=1'' @
                 (if CHR ''?'' \<in> set ''http://z/q?a=1'' then ''&unstamped=1''
                  else ''?unstamped=1''))),
           world0)"
    by (rule spec)
  then have w2: "get_fulltext_url example_env ?rq True True world0 =
       (Inr (Some ''http://z/q?a=1&unstamped=1''), world0)"
    by simp
  \<comment> \<open>a scraped href\<close>
  have hyp: "\<not> truthy (?ra ''fulltext_url'') \<and> ?ra ''calc_url'' = Some ''http://x/a'' \<and>
        ''http://x/a'' \<noteq> [] \<and>
        requests_get example_env (w_fetched world0) ''http://x/a'' = Returned ?resp \<and>
        resp_ok ?resp \<and>
        find_pdf_anchor example_env (resp_text ?resp) = Some ?attrs \<and>
        ?attrs ''href'' = Some ''http://x/y.pdf'' \<and> ''http://x/y.pdf'' \<noteq> []"
    by (simp add: truthy_def example_env_def example_get_def example_find_def)
  from stamping_suffix_rule [of ?ra example_env True world0]
  have "\<forall>c resp attrs x.
        \<not> truthy (?ra ''fulltext_url'') \<and> ?ra ''calc_url'' = Some c \<and> c \<noteq> [] \<and>
        requests_get example_env (w_fetched world0) c = Returned resp \<and> resp_ok resp \<and>
        find_pdf_anchor example_env (resp_text resp) = Some attrs \<and> attrs ''href'' = Some x \<and>
        x \<noteq> [] \<longrightarrow>
        fst (get_fulltext_url example_env ?ra True True world0) =
          Inr (Some (x @ (if CHR ''?'' \<in> set x then ''&unstamped=1'' else ''?unstamped=1'')))"
    by (rule conjunct1 [OF conjunct2 [OF conjunct2 [OF conjunct2 [OF conjunct2]]]])
  then have "\<not> truthy (?ra ''fulltext_url'') \<and> ?ra ''calc_url'' = Some ''http://x/a'' \<and>
        ''http://x/a'' \<noteq> [] \<and>
        requests_get example_env (w_fetched world0) ''http://x/a'' = Returned ?resp \<and>
        resp_ok ?resp \<and>
        find_pdf_anchor example_env (resp_text ?resp) = Some ?attrs \<and>
        ?attrs ''href'' = Some ''http://x/y.pdf'' \<and> ''http://x/y.pdf'' \<noteq> [] \<longrightarrow>
        fst (get_fulltext_url example_env ?ra True True world0) =
          Inr (Some (''http://x/y.pdf'' @
                (if CHR ''?'' \<in> set ''http://x/y.pdf'' then ''&unstamped=1''
                 else ''?unstamped=1'')))"
    by (elim allE)
  from this hyp have "fst (get_fulltext_url example_env ?ra True True world0) =
          Inr (Some (''http://x/y.pdf'' @
                (if CHR ''?'' \<in> set ''http://x/y.pdf'' then ''&unstamped=1''
                 else ''?unstamped=1'')))"
    by (rule mp)
  then have w3: "fst (get_fulltext_url example_env ?ra True True world0) =
       Inr (Some ''http://x/y.pdf?unstamped=1'')"
    by simp
  \<comment> \<open>no URL resolved: an empty explicit URL and no secondary URL\<close>
  from stamping_suffix_rule [of ?re example_env True world0]
  have "\<not> truthy (?re ''fulltext_url'') \<and> (\<not> True \<or> \<not> truthy (?re ''calc_url'')) \<longrightarrow>
        get_fulltext_url example_env ?re True True world0 = (Inr (?re ''fulltext_url''), world0)"
    by (rule conjunct1 [OF conjunct2 [OF conjunct2 [OF conjunct2 [OF conjunct2 [OF conjunct2]]]]])
  then have w4: "get_fulltext_url example_env ?re True True world0 = (Inr (Some []), world0)"
    by (simp add: truthy_def)
  \<comment> \<open>the flag false and the flag true on a row whose URL is not resolved\<close>
  have w5: "get_fulltext_url example_env ?ra False False world0 = (Inr None, world0)"
    by (simp add: get_fulltext_url_def truthy_def stamp_def)
  from stamping_suffix_rule [of ?ra example_env False world0]
  have "\<forall>r w'. get_fulltext_url example_env ?ra False False world0 = (Inr r, w') \<longrightarrow>
        get_fulltext_url example_env ?ra True False world0 = (Inr (stamp r True), w')"
    by (rule conjunct1 [OF conjunct2 [OF conjunct2 [OF conjunct2 [OF conjunct2 [OF conjunct2
          [OF conjunct2]]]]]])
  then have "get_fulltext_url example_env ?ra False False world0 = (Inr None, world0) \<longrightarrow>
        get_fulltext_url example_env ?ra True False world0 = (Inr (stamp None True), world0)"
    by (elim allE)
  from this w5 have "get_fulltext_url example_env ?ra True False world0 =
      (Inr (stamp None True), world0)"
    by (rule mp)
  then have w6: "get_fulltext_url example_env ?ra True False world0 = (Inr None, world0)"
    by (simp add: stamp_def)
  from w1 w2 w3 w4 w5 w6 show ?thesis
    by (intro conjI)
qed

text \<open>
  The failures of the scrape that the function handles: a transport error of the fetch is
  caught and logged as a warning, a response that is not OK is passed over, and an OK page
  without the anchor is logged as a warning. In each of the three cases the function returns
  the row's absent or empty explicit URL.
\<close>

lemma get_fulltext_url_soft_failure:
  assumes "\<not> truthy (row ''fulltext_url'')" and "scrape"
    and "row ''calc_url'' = Some c" and "c \<noteq> []"
  shows "(row ''fulltext_url'' = None \<or> row ''fulltext_url'' = Some [])
   \<and> (\<forall>exc. requests_get env (w_fetched w) c = Raised exc \<longrightarrow>
         get_fulltext_url env row unstamped scrape w =
           (Inr (row ''fulltext_url''),
            logger WARNING ''Failed to extract PDF URL: %s'' [StrArg exc]
              ((logger INFO ''Fetching article from %s'' [StrArg c] w)
                 \<lparr>w_fetched := w_fetched w @ [c]\<rparr>)))
   \<and> (\<forall>resp. requests_get env (w_fetched w) c = Returned resp \<and> \<not> resp_ok resp \<longrightarrow>
         get_fulltext_url env row unstamped scrape w =
           (Inr (row ''fulltext_url''),
            (logger INFO ''Fetching article from %s'' [StrArg c] w)
               \<lparr>w_fetched := w_fetched w @ [c]\<rparr>))
   \<and> (\<forall>resp. requests_get env (w_fetched w) c = Returned resp \<and> resp_ok resp \<and>
             find_pdf_anchor env (resp_text resp) = None \<longrightarrow>
         get_fulltext_url env row unstamped scrape w =
           (Inr (row ''fulltext_url''),
            logger WARNING ''No fulltext url found'' []
              ((logger INFO ''Fetching article from %s'' [StrArg c] w)
                 \<lparr>w_fetched := w_fetched w @ [c]\<rparr>)))"
proof -
  note unfold = get_fulltext_url_scrape [OF assms, of env unstamped w]
  have falsy: "row ''fulltext_url'' = None \<or> row ''fulltext_url'' = Some []"
    using assms(1) by (auto simp: truthy_def split: option.splits)
  have st: "stamp (row ''fulltext_url'') unstamped = row ''fulltext_url''"
    using assms(1) by (rule stamp_falsy)
  have raised: "get_fulltext_url env row unstamped scrape w =
           (Inr (row ''fulltext_url''),
            logger WARNING ''Failed to extract PDF URL: %s'' [StrArg exc]
              ((logger INFO ''Fetching article from %s'' [StrArg c] w)
                 \<lparr>w_fetched := w_fetched w @ [c]\<rparr>))"
    if "requests_get env (w_fetched w) c = Raised exc" for exc
    using assms(3) that by (simp add: unfold scrape_article_raised [where c = c] st)
  have not_ok: "get_fulltext_url env row unstamped scrape w =
           (Inr (row ''fulltext_url''),
            (logger INFO ''Fetching article from %s'' [StrArg c] w)
               \<lparr>w_fetched := w_fetched w @ [c]\<rparr>)"
    if "requests_get env (w_fetched w) c = Returned resp" "\<not> resp_ok resp" for resp
    using assms(3) that by (simp add: unfold scrape_article_not_ok [where c = c] st)
  have no_anchor: "get_fulltext_url env row unstamped scrape w =
           (Inr (row ''fulltext_url''),
            logger WARNING ''No fulltext url found'' []
              ((logger INFO ''Fetching article from %s'' [StrArg c] w)
                 \<lparr>w_fetched := w_fetched w @ [c]\<rparr>))"
    if "requests_get env (w_fetched w) c = Returned resp" "resp_ok resp"
      "find_pdf_anchor env (resp_text resp) = None" for resp
    using assms(3) that by (simp add: unfold scrape_article_no_anchor [where c = c] st)
  show ?thesis
    apply (intro conjI allI impI)
       apply (rule falsy)
      apply (erule raised)
     apply (erule conjE, erule (1) not_ok)
    apply (elim conjE, erule (2) no_anchor)
    done
qed

text \<open>
  C5. The resolution does raise for one resolution failure. When the fetched page has the
  \<open>pdf\<close> anchor and the anchor has no \<open>href\<close> attribute, the lookup on line 133
  raises \<open>KeyError\<close>, which nothing catches: the call ends in the exception instead of
  returning an absent value, although the page without the anchor, handled two lines below
  it, returns the absent value with a warning.
\<close>

theorem get_fulltext_url_anchor_without_href_raises:
  "requests_get example_env (w_fetched world0) ''http://x/h'' =
       Returned \<lparr>resp_ok = True, resp_text = ''page with anchor without href''\<rparr>
   \<and> find_pdf_anchor example_env ''page with anchor without href'' = Some [''id'' \<mapsto> ''pdf'']
   \<and> get_fulltext_url example_env [''calc_url'' \<mapsto> ''http://x/h''] True True world0 =
       (Inl (KeyError ''href''),
        \<lparr>w_log = [(INFO, ''Fetching article from %s'', [StrArg ''http://x/h''])],
         w_fetched = [''http://x/h''], w_fs = Map.empty, w_denied = {}, w_stdout = []\<rparr>)
   \<and> get_fulltext_url example_env [''calc_url'' \<mapsto> ''http://x/n''] True True world0 =
       (Inr None,
        \<lparr>w_log = [(INFO, ''Fetching article from %s'', [StrArg ''http://x/n'']),
                  (WARNING, ''No fulltext url found'', [])],
         w_fetched = [''http://x/n''], w_fs = Map.empty, w_denied = {}, w_stdout = []\<rparr>)"
  by (simp add: get_fulltext_url_def scrape_article_def truthy_def getitem_def stamp_def
      logger_def world0_def example_env_def example_get_def example_find_def)

section \<open>Mapping a row: results\<close>

lemma parse_article_metadata_Inr:
  assumes "parse_article_metadata env row w = (Inr article, w')"
  obtains d url ck where
    "row ''disciplines'' = Some d" and "row ''context_key'' = Some ck"
    and "get_fulltext_url env row True True w = (Inr url, w')"
    and "article = (map_option PyStr \<circ> row)
           (''keywords'' \<mapsto> PyStrList (str_split CHR '';'' d),
            ''fulltext_url'' \<mapsto> py_of_url url,
            ''article_id'' \<mapsto> PyStr ck,
            ''language'' \<mapsto> (case row ''language'' of None \<Rightarrow> PyStr ''en'' | Some v \<Rightarrow> PyStr v),
            ''peer_reviewed'' \<mapsto>
               (case row ''peer_reviewed'' of None \<Rightarrow> PyBool False | Some v \<Rightarrow> PyStr v))"
  using assms
  by (auto simp: parse_article_metadata_def getitem_def
      split: option.splits prod.splits sum.splits)

lemma parse_article_metadata_ok:
  assumes "row ''disciplines'' = Some d" and "row ''context_key'' = Some ck"
    and "get_fulltext_url env row True True w = (Inr url, w')"
  shows "parse_article_metadata env row w =
     (Inr ((map_option PyStr \<circ> row)
           (''keywords'' \<mapsto> PyStrList (str_split CHR '';'' d),
            ''fulltext_url'' \<mapsto> py_of_url url,
            ''article_id'' \<mapsto> PyStr ck,
            ''language'' \<mapsto> (case row ''language'' of None \<Rightarrow> PyStr ''en'' | Some v \<Rightarrow> PyStr v),
            ''peer_reviewed'' \<mapsto>
               (case row ''peer_reviewed'' of None \<Rightarrow> PyBool False | Some v \<Rightarrow> PyStr v))), w')"
  using assms by (simp add: parse_article_metadata_def getitem_def)

lemma parse_article_metadata_no_disciplines:
  "row ''disciplines'' = None \<Longrightarrow>
   parse_article_metadata env row w = (Inl (KeyError ''disciplines''), w)"
  by (simp add: parse_article_metadata_def getitem_def)

lemma parse_article_metadata_no_context_key:
  assumes "row ''disciplines'' = Some d" and "row ''context_key'' = None"
    and "get_fulltext_url env row True True w = (Inr url, w')"
  shows "parse_article_metadata env row w = (Inl (KeyError ''context_key''), w')"
  using assms by (simp add: parse_article_metadata_def getitem_def)

lemma parse_article_metadata_raises_iff:
  "(\<exists>e w'. parse_article_metadata env row w = (Inl e, w')) \<longleftrightarrow>
     row ''disciplines'' = None \<or> row ''context_key'' = None \<or>
     (\<not> truthy (row ''fulltext_url'') \<and> truthy (row ''calc_url'') \<and> anchor_lacks_href env row w)"
proof (cases "row ''disciplines''")
  case None
  then show ?thesis by (simp add: parse_article_metadata_no_disciplines)
next
  case (Some d)
  obtain res w1 where g: "get_fulltext_url env row True True w = (res, w1)"
    by (cases "get_fulltext_url env row True True w")
  show ?thesis
  proof (cases res)
    case (Inl e)
    with g have "\<exists>e w'. get_fulltext_url env row True True w = (Inl e, w')" by simp
    then have "\<not> truthy (row ''fulltext_url'') \<and> truthy (row ''calc_url'') \<and>
        anchor_lacks_href env row w"
      by (simp add: get_fulltext_url_raises_iff)
    moreover have "parse_article_metadata env row w = (Inl e, w1)"
      using Some g Inl by (simp add: parse_article_metadata_def getitem_def)
    ultimately show ?thesis by simp
  next
    case (Inr url)
    with g have "\<not> (\<exists>e w'. get_fulltext_url env row True True w = (Inl e, w'))" by simp
    then have no: "\<not> (\<not> truthy (row ''fulltext_url'') \<and> truthy (row ''calc_url'') \<and>
        anchor_lacks_href env row w)"
      by (simp add: get_fulltext_url_raises_iff)
    show ?thesis
    proof (cases "row ''context_key''")
      case None
      with Some g Inr show ?thesis
        by (simp add: parse_article_metadata_no_context_key)
    next
      case (Some ck)
      with \<open>row ''disciplines'' = Some d\<close> g Inr no show ?thesis
        by (simp add: parse_article_metadata_ok)
    qed
  qed
qed

lemma parse_row_raises_iff:
  "(\<exists>e w'. parse_row env row w = (Inl e, w')) \<longleftrightarrow>
   (\<exists>e w'. parse_article_metadata env row w = (Inl e, w'))"
  by (auto simp: parse_row_def split: prod.splits sum.splits)

lemma parse_row_Inr:
  assumes "parse_row env row w = (Inr parsed, w')"
  obtains article where "parse_article_metadata env row w = (Inr article, w')"
    and "parsed = article(''authors'' \<mapsto> PyAuthors (parse_authors row))"
  using assms by (auto simp: parse_row_def split: prod.splits sum.splits)







text \<open>
  C6 (as amended). When the full-text resolution of the row does not raise, the mapping
  raises exactly when the row lacks the discipline column or lacks the context key; an
  explicit article id does not stand in for the context key. A missing discipline column
  raises the lookup error of that column before anything is fetched, a missing context key
  raises the lookup error of that key after the resolution has run, and a row with both is
  mapped without raising.
\<close>

theorem parse_article_metadata_lookup_error:
  assumes "get_fulltext_url env row True True w = (Inr url, w1)"
  shows "((\<exists>e w'. parse_article_metadata env row w = (Inl e, w')) \<longleftrightarrow>
            row ''disciplines'' = None \<or> row ''context_key'' = None)
   \<and> ((\<exists>e w'. parse_row env row w = (Inl e, w')) \<longleftrightarrow>
            row ''disciplines'' = None \<or> row ''context_key'' = None)
   \<and> (row ''disciplines'' = None \<longrightarrow>
        parse_article_metadata env row w = (Inl (KeyError ''disciplines''), w) \<and>
        parse_row env row w = (Inl (KeyError ''disciplines''), w))
   \<and> (row ''disciplines'' \<noteq> None \<and> row ''context_key'' = None \<longrightarrow>
        parse_article_metadata env row w = (Inl (KeyError ''context_key''), w1) \<and>
        parse_row env row w = (Inl (KeyError ''context_key''), w1))
   \<and> (row ''disciplines'' \<noteq> None \<and> row ''context_key'' \<noteq> None \<longrightarrow>
        (\<exists>article. parse_article_metadata env row w = (Inr article, w1)) \<and>
        (\<exists>parsed. parse_row env row w = (Inr parsed, w1)))"
proof -
  have no_d: "parse_article_metadata env row w = (Inl (KeyError ''disciplines''), w) \<and>
        parse_row env row w = (Inl (KeyError ''disciplines''), w)"
    if "row ''disciplines'' = None"
    using that by (simp add: parse_row_def parse_article_metadata_no_disciplines)
  have no_ck: "parse_article_metadata env row w = (Inl (KeyError ''context_key''), w1) \<and>
        parse_row env row w = (Inl (KeyError ''context_key''), w1)"
    if "row ''disciplines'' \<noteq> None \<and> row ''context_key'' = None"
  proof -
    from that obtain d where "row ''disciplines'' = Some d" by auto
    with that assms show ?thesis
      by (simp add: parse_row_def
          parse_article_metadata_no_context_key [where d = d and url = url and w' = w1])
  qed
  have both: "(\<exists>article. parse_article_metadata env row w = (Inr article, w1)) \<and>
        (\<exists>parsed. parse_row env row w = (Inr parsed, w1))"
    if "row ''disciplines'' \<noteq> None \<and> row ''context_key'' \<noteq> None"
  proof -
    from that obtain d ck where "row ''disciplines'' = Some d" "row ''context_key'' = Some ck"
      by auto
    with assms show ?thesis
      by (simp add: parse_row_def
          parse_article_metadata_ok [where d = d and ck = ck and url = url and w' = w1])
  qed
  have meta_iff: "(\<exists>e w'. parse_article_metadata env row w = (Inl e, w')) \<longleftrightarrow>
            row ''disciplines'' = None \<or> row ''context_key'' = None"
  proof (cases "row ''disciplines'' = None")
    case True
    with no_d show ?thesis by simp
  next
    case False
    show ?thesis
    proof (cases "row ''context_key'' = None")
      case True
      with False no_ck show ?thesis by simp
    next
      case ck: False
      with False both obtain article where
        "parse_article_metadata env row w = (Inr article, w1)" by blast
      with False ck show ?thesis by simp
    qed
  qed
  have row_iff: "(\<exists>e w'. parse_row env row w = (Inl e, w')) \<longleftrightarrow>
            row ''disciplines'' = None \<or> row ''context_key'' = None"
    by (simp only: parse_row_raises_iff meta_iff)
  show ?thesis
    apply (intro conjI impI)
          apply (rule meta_iff)
         apply (rule row_iff)
        apply (erule no_d [THEN conjunct1])
       apply (erule no_d [THEN conjunct2])
      apply (erule no_ck [THEN conjunct1])
     apply (erule no_ck [THEN conjunct2])
    apply (erule both [THEN conjunct1])
    apply (erule both [THEN conjunct2])
    done
qed

theorem parse_article_metadata_lookup_error_witness:
  "get_fulltext_url example_env
     [''context_key'' \<mapsto> ''42'', ''fulltext_url'' \<mapsto> ''http://x/y''] True True world0 =
     (Inr (Some ''http://x/y?unstamped=1''), world0)
   \<and> [''context_key'' \<mapsto> ''42'', ''fulltext_url'' \<mapsto> ''http://x/y''] ''disciplines'' = None
   \<and> parse_article_metadata example_env
        [''context_key'' \<mapsto> ''42'', ''fulltext_url'' \<mapsto> ''http://x/y''] world0 =
        (Inl (KeyError ''disciplines''), world0)
   \<and> get_fulltext_url example_env
        [''disciplines'' \<mapsto> ''A;B'', ''context_key'' \<mapsto> ''42'', ''fulltext_url'' \<mapsto> ''http://x/y'']
        True True world0 =
        (Inr (Some ''http://x/y?unstamped=1''), world0)
   \<and> \<not> (\<exists>e w'. parse_row example_env
        [''disciplines'' \<mapsto> ''A;B'', ''context_key'' \<mapsto> ''42'', ''fulltext_url'' \<mapsto> ''http://x/y'']
        world0 = (Inl e, w'))"
proof -
  let ?bad = "[''context_key'' \<mapsto> ''42'', ''fulltext_url'' \<mapsto> ''http://x/y'']"
  let ?good = "[''disciplines'' \<mapsto> ''A;B'', ''context_key'' \<mapsto> ''42'',
                ''fulltext_url'' \<mapsto> ''http://x/y'']"
  have g1: "get_fulltext_url example_env ?bad True True world0 =
      (Inr (Some ''http://x/y?unstamped=1''), world0)"
    by (simp add: get_fulltext_url_def truthy_def stamp_def)
  have g2: "get_fulltext_url example_env ?good True True world0 =
      (Inr (Some ''http://x/y?unstamped=1''), world0)"
    by (simp add: get_fulltext_url_def truthy_def stamp_def)
  have none: "?bad ''disciplines'' = None" by simp
  from parse_article_metadata_lookup_error [OF g1]
  have "?bad ''disciplines'' = None \<longrightarrow>
        parse_article_metadata example_env ?bad world0 = (Inl (KeyError ''disciplines''), world0) \<and>
        parse_row example_env ?bad world0 = (Inl (KeyError ''disciplines''), world0)"
    by (rule conjunct1 [OF conjunct2 [OF conjunct2]])
  from this none have "parse_article_metadata example_env ?bad world0 =
        (Inl (KeyError ''disciplines''), world0) \<and>
        parse_row example_env ?bad world0 = (Inl (KeyError ''disciplines''), world0)"
    by (rule mp)
  then have r1: "parse_article_metadata example_env ?bad world0 =
        (Inl (KeyError ''disciplines''), world0)"
    by (rule conjunct1)
  from parse_article_metadata_lookup_error [OF g2]
  have "(\<exists>e w'. parse_row example_env ?good world0 = (Inl e, w')) \<longleftrightarrow>
      ?good ''disciplines'' = None \<or> ?good ''context_key'' = None"
    by (rule conjunct1 [OF conjunct2])
  moreover have "\<not> (?good ''disciplines'' = None \<or> ?good ''context_key'' = None)"
    by simp
  ultimately have r2: "\<not> (\<exists>e w'. parse_row example_env ?good world0 = (Inl e, w'))"
    by blast
  from g1 none r1 g2 r2 show ?thesis by (intro conjI)
qed

text \<open>
  The claim as written fails on a row that carries the discipline column and an explicit
  article id but no context key: the mapping raises the lookup error of the context key.
\<close>

theorem parse_article_metadata_article_id_counterexample:
  "[''disciplines'' \<mapsto> ''A;B'', ''article_id'' \<mapsto> ''7''] ''disciplines'' = Some ''A;B''
   \<and> [''disciplines'' \<mapsto> ''A;B'', ''article_id'' \<mapsto> ''7''] ''article_id'' = Some ''7''
   \<and> parse_article_metadata example_env
        [''disciplines'' \<mapsto> ''A;B'', ''article_id'' \<mapsto> ''7''] world0 =
        (Inl (KeyError ''context_key''), world0)
   \<and> parse_row example_env
        [''disciplines'' \<mapsto> ''A;B'', ''article_id'' \<mapsto> ''7''] world0 =
        (Inl (KeyError ''context_key''), world0)"
  by (simp add: parse_row_def parse_article_metadata_def get_fulltext_url_def getitem_def
      truthy_def stamp_def)

text \<open>
  C7 (as amended). When \<open>parse_row\<close> succeeds, every row field whose name is not one of
  \<open>keywords\<close>, \<open>fulltext_url\<close>, \<open>article_id\<close>, \<open>authors\<close> is in the record with
  its row value (a \<open>language\<close> or \<open>peer_reviewed\<close> field of the row included); the record
  has the row's field names and the six derived ones, so nothing is dropped; and the four
  names above hold the derived values, whatever the row held under them.
\<close>

theorem parse_row_carries_fields:
  assumes "parse_row env row w = (Inr parsed, w')"
  shows "(\<forall>k v. row k = Some v \<and>
             k \<notin> {''keywords'', ''fulltext_url'', ''article_id'', ''authors''} \<longrightarrow>
             parsed k = Some (PyStr v))
   \<and> dom parsed = dom row \<union>
        {''keywords'', ''fulltext_url'', ''article_id'', ''language'', ''peer_reviewed'',
         ''authors''}
   \<and> (\<exists>d. row ''disciplines'' = Some d \<and>
            parsed ''keywords'' = Some (PyStrList (str_split CHR '';'' d)))
   \<and> (\<exists>url. get_fulltext_url env row True True w = (Inr url, w') \<and>
            parsed ''fulltext_url'' = Some (py_of_url url))
   \<and> (\<exists>ck. row ''context_key'' = Some ck \<and> parsed ''article_id'' = Some (PyStr ck))
   \<and> parsed ''authors'' = Some (PyAuthors (parse_authors row))"
proof -
  from assms obtain article where
    meta: "parse_article_metadata env row w = (Inr article, w')"
    and parsed: "parsed = article(''authors'' \<mapsto> PyAuthors (parse_authors row))"
    by (rule parse_row_Inr)
  from meta obtain d url ck where
    d: "row ''disciplines'' = Some d" and ck: "row ''context_key'' = Some ck"
    and url: "get_fulltext_url env row True True w = (Inr url, w')"
    and article: "article = (map_option PyStr \<circ> row)
           (''keywords'' \<mapsto> PyStrList (str_split CHR '';'' d),
            ''fulltext_url'' \<mapsto> py_of_url url,
            ''article_id'' \<mapsto> PyStr ck,
            ''language'' \<mapsto> (case row ''language'' of None \<Rightarrow> PyStr ''en'' | Some v \<Rightarrow> PyStr v),
            ''peer_reviewed'' \<mapsto>
               (case row ''peer_reviewed'' of None \<Rightarrow> PyBool False | Some v \<Rightarrow> PyStr v))"
    by (rule parse_article_metadata_Inr)
  have carried: "parsed k = Some (PyStr v)"
    if "row k = Some v \<and> k \<notin> {''keywords'', ''fulltext_url'', ''article_id'', ''authors''}"
    for k v
    using that
    by (cases "k = ''language''"; cases "k = ''peer_reviewed''") (simp_all add: parsed article)
  have domain: "dom parsed = dom row \<union>
        {''keywords'', ''fulltext_url'', ''article_id'', ''language'', ''peer_reviewed'',
         ''authors''}"
    by (simp add: parsed article) (auto simp: dom_def)
  have kw: "\<exists>d. row ''disciplines'' = Some d \<and>
            parsed ''keywords'' = Some (PyStrList (str_split CHR '';'' d))"
    using d by (simp add: parsed article)
  have fu: "\<exists>url. get_fulltext_url env row True True w = (Inr url, w') \<and>
            parsed ''fulltext_url'' = Some (py_of_url url)"
    using url by (simp add: parsed article)
  have ai: "\<exists>ck. row ''context_key'' = Some ck \<and> parsed ''article_id'' = Some (PyStr ck)"
    using ck by (simp add: parsed article)
  have au: "parsed ''authors'' = Some (PyAuthors (parse_authors row))"
    by (simp add: parsed)
  show ?thesis
    apply (intro conjI allI impI)
         apply (erule carried)
        apply (rule domain)
       apply (rule kw)
      apply (rule fu)
     apply (rule ai)
    apply (rule au)
    done
qed


theorem parse_row_carries_fields_witness:
  "parse_row example_env
     [''disciplines'' \<mapsto> ''A;B'', ''context_key'' \<mapsto> ''42'', ''title'' \<mapsto> ''On maps'',
      ''language'' \<mapsto> ''fr''] world0 =
     (Inr ((map_option PyStr \<circ>
            [''disciplines'' \<mapsto> ''A;B'', ''context_key'' \<mapsto> ''42'',
             ''title'' \<mapsto> ''On maps'', ''language'' \<mapsto> ''fr''])
           (''keywords'' \<mapsto> PyStrList [''A'', ''B''],
            ''fulltext_url'' \<mapsto> PyNone,
            ''article_id'' \<mapsto> PyStr ''42'',
            ''language'' \<mapsto> PyStr ''fr'',
            ''peer_reviewed'' \<mapsto> PyBool False,
            ''authors'' \<mapsto> PyAuthors [])), world0)
   \<and> [''disciplines'' \<mapsto> ''A;B'', ''context_key'' \<mapsto> ''42'', ''title'' \<mapsto> ''On maps'',
        ''language'' \<mapsto> ''fr''] ''title'' = Some ''On maps''
   \<and> ''title'' \<notin> {''keywords'', ''fulltext_url'', ''article_id'', ''authors''}
   \<and> ((map_option PyStr \<circ>
            [''disciplines'' \<mapsto> ''A;B'', ''context_key'' \<mapsto> ''42'',
             ''title'' \<mapsto> ''On maps'', ''language'' \<mapsto> ''fr''])
           (''keywords'' \<mapsto> PyStrList [''A'', ''B''],
            ''fulltext_url'' \<mapsto> PyNone,
            ''article_id'' \<mapsto> PyStr ''42'',
            ''language'' \<mapsto> PyStr ''fr'',
            ''peer_reviewed'' \<mapsto> PyBool False,
            ''authors'' \<mapsto> PyAuthors [])) ''title'' = Some (PyStr ''On maps'')"
proof -
  let ?row = "[''disciplines'' \<mapsto> ''A;B'', ''context_key'' \<mapsto> ''42'',
               ''title'' \<mapsto> ''On maps'', ''language'' \<mapsto> ''fr'']"
  let ?parsed = "(map_option PyStr \<circ> ?row)
           (''keywords'' \<mapsto> PyStrList [''A'', ''B''],
            ''fulltext_url'' \<mapsto> PyNone,
            ''article_id'' \<mapsto> PyStr ''42'',
            ''language'' \<mapsto> PyStr ''fr'',
            ''peer_reviewed'' \<mapsto> PyBool False,
            ''authors'' \<mapsto> PyAuthors [])"
  have blank: "author_candidate ?row (Suc 0) = Map.empty"
    by (simp add: author_candidate_def AUTHOR_FIELDS_MAP_def author_field_def truthy_def
        getitem_def decimal_digit digit_def)
  have authors: "parse_authors ?row = []"
    by (subst parse_authors_takeWhile) (simp add: blank)
  have run: "parse_row example_env ?row world0 = (Inr ?parsed, world0)"
    by (simp add: parse_row_def parse_article_metadata_def get_fulltext_url_def getitem_def
        truthy_def stamp_def py_of_url_def authors)
  have key: "?row ''title'' = Some ''On maps'' \<and>
      ''title'' \<notin> {''keywords'', ''fulltext_url'', ''article_id'', ''authors''}"
    by simp
  have key1: "?row ''title'' = Some ''On maps''"
    by simp
  have key2: "''title'' \<notin> {''keywords'', ''fulltext_url'', ''article_id'', ''authors''}"
    by simp
  from parse_row_carries_fields [OF run]
  have "\<forall>k v. ?row k = Some v \<and>
             k \<notin> {''keywords'', ''fulltext_url'', ''article_id'', ''authors''} \<longrightarrow>
             ?parsed k = Some (PyStr v)"
    by (rule conjunct1)
  then have "\<forall>v. ?row ''title'' = Some v \<and>
             ''title'' \<notin> {''keywords'', ''fulltext_url'', ''article_id'', ''authors''} \<longrightarrow>
             ?parsed ''title'' = Some (PyStr v)"
    by (rule spec)
  then have "?row ''title'' = Some ''On maps'' \<and>
             ''title'' \<notin> {''keywords'', ''fulltext_url'', ''article_id'', ''authors''} \<longrightarrow>
             ?parsed ''title'' = Some (PyStr ''On maps'')"
    by (rule spec)
  from this key have carried: "?parsed ''title'' = Some (PyStr ''On maps'')"
    by (rule mp)
  from run key1 key2 carried show ?thesis
    by (intro conjI)
qed

text \<open>
  The claim as written fails on a row that has a \<open>fulltext_url\<close> and an \<open>article_id\<close>
  field: the record holds the stamped URL and the context key under these names, not the
  row's values.
\<close>

theorem parse_row_overwrites_counterexample:
  "[''disciplines'' \<mapsto> ''A;B'', ''context_key'' \<mapsto> ''42'', ''article_id'' \<mapsto> ''7'',
    ''fulltext_url'' \<mapsto> ''http://x/y''] ''fulltext_url'' = Some ''http://x/y''
   \<and> [''disciplines'' \<mapsto> ''A;B'', ''context_key'' \<mapsto> ''42'', ''article_id'' \<mapsto> ''7'',
    ''fulltext_url'' \<mapsto> ''http://x/y''] ''article_id'' = Some ''7''
   \<and> map_sum id (\<lambda>parsed. parsed ''fulltext_url'')
        (fst (parse_row example_env
           [''disciplines'' \<mapsto> ''A;B'', ''context_key'' \<mapsto> ''42'', ''article_id'' \<mapsto> ''7'',
            ''fulltext_url'' \<mapsto> ''http://x/y''] world0)) =
       Inr (Some (PyStr ''http://x/y?unstamped=1''))
   \<and> map_sum id (\<lambda>parsed. parsed ''article_id'')
        (fst (parse_row example_env
           [''disciplines'' \<mapsto> ''A;B'', ''context_key'' \<mapsto> ''42'', ''article_id'' \<mapsto> ''7'',
            ''fulltext_url'' \<mapsto> ''http://x/y''] world0)) =
       Inr (Some (PyStr ''42''))"
  by (simp add: parse_row_def parse_article_metadata_def get_fulltext_url_def getitem_def
      truthy_def stamp_def py_of_url_def)

lemma mapped_fields:
  assumes "parse_article_metadata env row w = (Inr article, w') \<or>
           parse_row env row w = (Inr article, w')"
  shows "(\<exists>d. row ''disciplines'' = Some d \<and>
            article ''keywords'' = Some (PyStrList (str_split CHR '';'' d)))
    \<and> article ''language'' =
          Some (case row ''language'' of None \<Rightarrow> PyStr ''en'' | Some v \<Rightarrow> PyStr v)
    \<and> article ''peer_reviewed'' =
          Some (case row ''peer_reviewed'' of None \<Rightarrow> PyBool False | Some v \<Rightarrow> PyStr v)"
proof -
  have meta: "(\<exists>d. row ''disciplines'' = Some d \<and>
            a ''keywords'' = Some (PyStrList (str_split CHR '';'' d)))
    \<and> a ''language'' =
          Some (case row ''language'' of None \<Rightarrow> PyStr ''en'' | Some v \<Rightarrow> PyStr v)
    \<and> a ''peer_reviewed'' =
          Some (case row ''peer_reviewed'' of None \<Rightarrow> PyBool False | Some v \<Rightarrow> PyStr v)"
    if "parse_article_metadata env row w = (Inr a, w')" for a
  proof -
    from that obtain d url ck where d: "row ''disciplines'' = Some d"
      and a: "a = (map_option PyStr \<circ> row)
           (''keywords'' \<mapsto> PyStrList (str_split CHR '';'' d),
            ''fulltext_url'' \<mapsto> py_of_url url,
            ''article_id'' \<mapsto> PyStr ck,
            ''language'' \<mapsto> (case row ''language'' of None \<Rightarrow> PyStr ''en'' | Some v \<Rightarrow> PyStr v),
            ''peer_reviewed'' \<mapsto>
               (case row ''peer_reviewed'' of None \<Rightarrow> PyBool False | Some v \<Rightarrow> PyStr v))"
      by (rule parse_article_metadata_Inr)
    show ?thesis by (simp add: a d)
  qed
  from assms show ?thesis
  proof
    assume "parse_article_metadata env row w = (Inr article, w')"
    then show ?thesis by (rule meta)
  next
    assume "parse_row env row w = (Inr article, w')"
    then obtain a where a: "parse_article_metadata env row w = (Inr a, w')"
      and article: "article = a(''authors'' \<mapsto> PyAuthors (parse_authors row))"
      by (rule parse_row_Inr)
    from meta [OF a] show ?thesis by (simp add: article)
  qed
qed



text \<open>
  C10. When the mapping succeeds, the record's language is the row's value wherever the row
  has the \<open>language\<close> key, the empty string included, and \<open>en\<close> only when the key is
  absent; likewise \<open>peer_reviewed\<close> is the row's text wherever the key is present, whatever
  the text, and false only when the key is absent.
\<close>

theorem language_peer_reviewed_defaults:
  assumes "parse_article_metadata env row w = (Inr article, w') \<or>
           parse_row env row w = (Inr article, w')"
  shows "(row ''language'' = None \<longrightarrow> article ''language'' = Some (PyStr ''en''))
    \<and> (\<forall>v. row ''language'' = Some v \<longrightarrow> article ''language'' = Some (PyStr v))
    \<and> (row ''language'' = Some [] \<longrightarrow> article ''language'' = Some (PyStr []))
    \<and> (row ''peer_reviewed'' = None \<longrightarrow> article ''peer_reviewed'' = Some (PyBool False))
    \<and> (\<forall>v. row ''peer_reviewed'' = Some v \<longrightarrow> article ''peer_reviewed'' = Some (PyStr v))"
proof -
  from mapped_fields [OF assms]
  have lang: "article ''language'' =
          Some (case row ''language'' of None \<Rightarrow> PyStr ''en'' | Some v \<Rightarrow> PyStr v)"
    and peer: "article ''peer_reviewed'' =
          Some (case row ''peer_reviewed'' of None \<Rightarrow> PyBool False | Some v \<Rightarrow> PyStr v)"
    by simp_all
  show ?thesis
    by (intro conjI allI impI) (simp_all add: lang peer)
qed

theorem language_peer_reviewed_defaults_witness:
  "parse_article_metadata example_env
     [''disciplines'' \<mapsto> ''A'', ''context_key'' \<mapsto> ''42'', ''language'' \<mapsto> [],
      ''peer_reviewed'' \<mapsto> ''false''] world0 =
     (Inr ((map_option PyStr \<circ>
             [''disciplines'' \<mapsto> ''A'', ''context_key'' \<mapsto> ''42'', ''language'' \<mapsto> [],
              ''peer_reviewed'' \<mapsto> ''false''])
           (''keywords'' \<mapsto> PyStrList [''A''],
            ''fulltext_url'' \<mapsto> PyNone,
            ''article_id'' \<mapsto> PyStr ''42'',
            ''language'' \<mapsto> PyStr [],
            ''peer_reviewed'' \<mapsto> PyStr ''false'')), world0)
   \<and> [''disciplines'' \<mapsto> ''A'', ''context_key'' \<mapsto> ''42'', ''language'' \<mapsto> [],
       ''peer_reviewed'' \<mapsto> ''false''] ''language'' = Some []
   \<and> ((map_option PyStr \<circ>
             [''disciplines'' \<mapsto> ''A'', ''context_key'' \<mapsto> ''42'', ''language'' \<mapsto> [],
              ''peer_reviewed'' \<mapsto> ''false''])
           (''keywords'' \<mapsto> PyStrList [''A''],
            ''fulltext_url'' \<mapsto> PyNone,
            ''article_id'' \<mapsto> PyStr ''42'',
            ''language'' \<mapsto> PyStr [],
            ''peer_reviewed'' \<mapsto> PyStr ''false'')) ''language'' = Some (PyStr [])"
proof -
  let ?row = "[''disciplines'' \<mapsto> ''A'', ''context_key'' \<mapsto> ''42'', ''language'' \<mapsto> [],
               ''peer_reviewed'' \<mapsto> ''false'']"
  let ?article = "(map_option PyStr \<circ> ?row)
           (''keywords'' \<mapsto> PyStrList [''A''],
            ''fulltext_url'' \<mapsto> PyNone,
            ''article_id'' \<mapsto> PyStr ''42'',
            ''language'' \<mapsto> PyStr [],
            ''peer_reviewed'' \<mapsto> PyStr ''false'')"
  have lang: "?row ''language'' = Some []"
    by simp
  have run: "parse_article_metadata example_env ?row world0 = (Inr ?article, world0)"
    by (simp add: parse_article_metadata_def get_fulltext_url_def getitem_def
        truthy_def stamp_def py_of_url_def)
  from language_peer_reviewed_defaults [OF disjI1 [OF run]]
  have "?row ''language'' = Some [] \<longrightarrow> ?article ''language'' = Some (PyStr [])"
    by (rule conjunct1 [OF conjunct2 [OF conjunct2]])
  from this lang have "?article ''language'' = Some (PyStr [])"
    by (rule mp)
  with run lang show ?thesis
    by (intro conjI)
qed

section \<open>Batch conversion: results\<close>

lemma str_split_no_sep: "sep \<notin> set s \<Longrightarrow> str_split sep s = [s]"
  by (induction s) auto

lemma join_part_plain: "plain s \<Longrightarrow> join_part parsed s = parsed @ [s]"
proof -
  assume p: "plain s"
  then obtain c cs where s: "s = c # cs" and c: "c \<noteq> CHR ''/''"
    by (cases s) (auto simp: plain_def)
  have root: "splitroot s = ([], s)"
    using c by (simp add: splitroot_def s)
  have "segments s = [s]"
    using p by (simp add: segments_def plain_def str_split_no_sep)
  with root p show ?thesis
    by (simp add: join_part_def plain_def)
qed

lemma plain_metadata: "plain ''metadata.xml''"
  by (simp add: plain_def)

lemma Path_snoc: "Path (args @ [s]) = join_part (Path args) s"
  by (simp add: Path_def)

lemma Path_file:
  "Path [b, i, d, ''metadata.xml''] = Path [b, i, d] @ [''metadata.xml'']"
  using Path_snoc [of "[b, i, d]" "''metadata.xml''"]
  by (simp add: join_part_plain plain_metadata)




lemma locate_snoc: "locate (p @ [s]) = enter (locate p) s"
  by (simp add: locate_def)

lemma locate_file:
  "locate (Path [b, i, d, ''metadata.xml'']) = locate (Path [b, i, d]) @ [''metadata.xml'']"
  by (simp add: Path_file locate_snoc enter_def)

lemma is_dir_fs: "w_fs w' = w_fs w \<Longrightarrow> is_dir w' l = is_dir w l"
  by (simp add: is_dir_def)





lemma parse_row_context_key:
  assumes "parse_row env row w = (Inr parsed, w')"
  obtains ck where "row ''context_key'' = Some ck"
proof -
  from assms obtain article where "parse_article_metadata env row w = (Inr article, w')"
    by (rule parse_row_Inr)
  then obtain ck where "row ''context_key'' = Some ck"
    by (rule parse_article_metadata_Inr)
  then show ?thesis by (rule that)
qed








end
